theory Spec2Isabelle
  imports Complex_Main "HOL-Library.List_Lexorder" "HOL-Library.Char_ord"
begin

section \<open>Exceptions\<close>

text \<open>
  Every exception the modelled Python code can raise is a value of \<open>py_error\<close>; a
  function that may raise returns \<open>py_error + 'a\<close> with \<open>Inl\<close> for the exception.
  \<open>CvError\<close> is OpenCV's \<open>cv2.error\<close>.
\<close>

datatype py_error =
    TypeError | ValueError | IndexError | RuntimeError | AssertionError
  | FileNotFoundError | CvError

section \<open>Value-range adapters (\<open>vp_suite/utils/utils.py\<close>)\<close>

text \<open>
  \<open>ScaleToTest\<close> and \<open>ScaleToModel\<close> are built from two value ranges, each unpacked
  by the constructor into a minimum and a maximum (\<open>self.m_min, self.m_max = model_value_range\<close>),
  so a range is a pair. The \<open>forward\<close> methods act elementwise on the image tensor;
  the tensor is the list of its elements. Arithmetic is exact (rationals): the rounding of
  floating point is not part of the model.
\<close>

type_synonym value_range = "rat \<times> rat"

definition ScaleToTest_elem :: "value_range \<Rightarrow> value_range \<Rightarrow> rat \<Rightarrow> rat" where
  "ScaleToTest_elem model_value_range test_value_range img =
     (let (m_min, m_max) = model_value_range;
          (t_min, t_max) = test_value_range;
          img1 = (img - m_min) / (m_max - m_min);
          img2 = img1 * (t_max - t_min) + t_min
      in img2)"

definition ScaleToModel_elem :: "value_range \<Rightarrow> value_range \<Rightarrow> rat \<Rightarrow> rat" where
  "ScaleToModel_elem model_value_range test_value_range img =
     (let (m_min, m_max) = model_value_range;
          (t_min, t_max) = test_value_range;
          img1 = (img - t_min) / (t_max - t_min);
          img2 = img1 * (m_max - m_min) + m_min
      in img2)"

definition ScaleToTest_forward :: "value_range \<Rightarrow> value_range \<Rightarrow> rat list \<Rightarrow> rat list" where
  "ScaleToTest_forward model_value_range test_value_range img =
     map (ScaleToTest_elem model_value_range test_value_range) img"

definition ScaleToModel_forward :: "value_range \<Rightarrow> value_range \<Rightarrow> rat list \<Rightarrow> rat list" where
  "ScaleToModel_forward model_value_range test_value_range img =
     map (ScaleToModel_elem model_value_range test_value_range) img"

section \<open>The training orchestrator (\<open>main.py\<close>, from \<open>max_accuracy = 0\<close> on)\<close>

text \<open>
  The state of the epoch loop: \<open>max_accuracy\<close>, the optimizer's learning rate
  (\<open>optimizer.param_groups[0]['lr']\<close>) and the contents of the run directory, which
  \<open>out_dir.mkdir(parents=True)\<close> has just created (it raises when the directory exists, so
  the directory starts empty). A saved model is identified by the epoch after whose
  training batches it was saved. Two fields only observe the run: \<open>lr_used\<close> lists, per
  epoch, the learning rate the optimizer had during that epoch's training batches, and
  \<open>saved_at\<close> lists the epochs in which \<open>torch.save\<close> was executed.

  \<open>get_accuracy\<close> is an external collaborator; its result after epoch \<open>i\<close> is the
  parameter \<open>acc i\<close>. Accuracies and learning rates are exact rationals; the factor
  \<open>0.1\<close> is \<open>1/10\<close>.
\<close>

record orchestrator =
  max_accuracy :: rat
  lr :: rat
  run_dir :: "string \<rightharpoonup> nat"
  lr_used :: "rat list"
  saved_at :: "nat list"

definition NUM_EPOCHS :: nat where
  "NUM_EPOCHS = 20"

definition LEARNING_RATE :: rat where
  "LEARNING_RATE = 1 / 10000"

definition init_orchestrator :: "rat \<Rightarrow> orchestrator" where
  "init_orchestrator learning_rate =
     \<lparr>max_accuracy = 0, lr = learning_rate, run_dir = Map.empty, lr_used = [], saved_at = []\<rparr>"

definition train_batches :: "orchestrator \<Rightarrow> orchestrator" where
  "train_batches s = s\<lparr>lr_used := lr_used s @ [lr s]\<rparr>"

definition maybe_checkpoint :: "rat \<Rightarrow> nat \<Rightarrow> orchestrator \<Rightarrow> orchestrator" where
  "maybe_checkpoint accuracy i s =
     (if max_accuracy s < accuracy
      then s\<lparr>max_accuracy := accuracy,
             run_dir := (run_dir s)(''best_model.pth'' \<mapsto> i),
             saved_at := saved_at s @ [i]\<rparr>
      else s)"

definition lr_schedule :: "nat \<Rightarrow> orchestrator \<Rightarrow> orchestrator" where
  "lr_schedule i s = (if i = 25 then s\<lparr>lr := lr s * (1 / 10)\<rparr> else s)"

definition epoch :: "(nat \<Rightarrow> rat) \<Rightarrow> orchestrator \<Rightarrow> nat \<Rightarrow> orchestrator" where
  "epoch acc s i = lr_schedule i (maybe_checkpoint (acc i) i (train_batches s))"

definition training_loop :: "(nat \<Rightarrow> rat) \<Rightarrow> nat \<Rightarrow> rat \<Rightarrow> orchestrator" where
  "training_loop acc num_epochs learning_rate =
     foldl (epoch acc) (init_orchestrator learning_rate) [0..<num_epochs]"

definition acc_of_list :: "rat list \<Rightarrow> nat \<Rightarrow> rat" where
  "acc_of_list accuracies i = (if i < length accuracies then accuracies ! i else 0)"

definition torch_load :: "orchestrator \<Rightarrow> string \<Rightarrow> py_error + nat" where
  "torch_load s name = (case run_dir s name of None \<Rightarrow> Inl FileNotFoundError | Some m \<Rightarrow> Inr m)"

definition train_and_test :: "(nat \<Rightarrow> rat) \<Rightarrow> nat \<Rightarrow> rat \<Rightarrow> py_error + (nat \<times> orchestrator)" where
  "train_and_test acc num_epochs learning_rate =
     (let s = training_loop acc num_epochs learning_rate
      in case torch_load s ''best_model.pth'' of
           Inl e \<Rightarrow> Inl e
         | Inr best_model \<Rightarrow> Inr (best_model, s))"

section \<open>Model compatibility (\<open>check_model_compatibility\<close>)\<close>

text \<open>
  The two configurations are dictionaries read at fixed keys; they are records with one
  field per key read. Of the model object the function reads \<open>can_handle_actions\<close> and
  \<open>min_context_frames\<close> (\<open>desc\<close> only appears in messages). The adapter modules
  collected in the two lists are a datatype; \<open>Resize\<close> is torchvision's. Each
  \<open>raise\<close> and the one \<open>assert\<close> of the function is a constructor of
  \<open>compat_error\<close>, in the order of the source. The function also assigns to
  \<open>run_config\<close>; the updated dictionary is returned with the two sequences.
\<close>

record config =
  tensor_value_range :: value_range
  use_actions :: bool
  action_size :: int
  img_shape :: "nat \<times> nat \<times> nat"
  context_frames :: "int option"
  pred_frames :: "int option"

record model_info =
  can_handle_actions :: bool
  min_context_frames :: int

datatype transform =
    ScaleToModel value_range value_range
  | ScaleToTest value_range value_range
  | Resize "nat \<times> nat"

datatype compat_error =
    ValueRangesDiffer
  | ActionsRequired
  | ActionSizesDiffer
  | TrainedWithoutActions
  | ChannelsDiffer
  | ImgSizesDiffer
  | TooFewContextFrames

definition bind_err :: "'e + 'a \<Rightarrow> ('a \<Rightarrow> 'e + 'b) \<Rightarrow> 'e + 'b" where
  "bind_err r f = (case r of Inl e \<Rightarrow> Inl e | Inr v \<Rightarrow> f v)"

definition check_value_range ::
  "config \<Rightarrow> config \<Rightarrow> bool \<Rightarrow> transform list \<times> transform list
     \<Rightarrow> compat_error + (transform list \<times> transform list)" where
  "check_value_range model_config run_config strict_mode pp =
     (let (model_preprocessing, model_postprocessing) = pp;
          model_value_range = tensor_value_range model_config;
          test_value_range = tensor_value_range run_config
      in if model_value_range \<noteq> test_value_range
         then (if strict_mode then Inl ValueRangesDiffer
               else Inr (model_preprocessing @ [ScaleToModel model_value_range test_value_range],
                         model_postprocessing @ [ScaleToTest model_value_range test_value_range]))
         else Inr (model_preprocessing, model_postprocessing))"

definition check_actions :: "config \<Rightarrow> config \<Rightarrow> model_info \<Rightarrow> compat_error + unit" where
  "check_actions model_config run_config model =
     (let mdl_ac = use_actions model_config; run_ac = use_actions run_config
      in if can_handle_actions model
         then (if mdl_ac
               then (if \<not> run_ac then Inl ActionsRequired
                     else if action_size model_config = action_size run_config then Inr ()
                     else Inl ActionSizesDiffer)
               else if run_ac then Inl TrainedWithoutActions
               else Inr ())
         else Inr ())"

definition check_img_shape ::
  "config \<Rightarrow> config \<Rightarrow> bool \<Rightarrow> transform list \<times> transform list
     \<Rightarrow> compat_error + (transform list \<times> transform list)" where
  "check_img_shape model_config run_config strict_mode pp =
     (let (model_preprocessing, model_postprocessing) = pp;
          (model_c, model_h, model_w) = img_shape model_config;
          (test_c, test_h, test_w) = img_shape run_config
      in if model_c \<noteq> test_c then Inl ChannelsDiffer
         else if model_h \<noteq> test_h \<or> model_w \<noteq> test_w
         then (if strict_mode then Inl ImgSizesDiffer
               else Inr (model_preprocessing @ [Resize (model_h, model_w)],
                         model_postprocessing @ [Resize (test_h, test_w)]))
         else Inr (model_preprocessing, model_postprocessing))"

definition check_frames :: "config \<Rightarrow> config \<Rightarrow> model_info \<Rightarrow> compat_error + config" where
  "check_frames model_config run_config model =
     bind_err
       (case context_frames run_config of
          None \<Rightarrow> Inr (run_config\<lparr>context_frames := context_frames model_config\<rparr>)
        | Some cf \<Rightarrow> if cf < min_context_frames model then Inl TooFewContextFrames
                    else Inr run_config)
       (\<lambda>rc. case pred_frames rc of
                None \<Rightarrow> Inr (rc\<lparr>pred_frames := pred_frames model_config\<rparr>)
              | Some _ \<Rightarrow> Inr rc)"

definition check_model_compatibility ::
  "config \<Rightarrow> config \<Rightarrow> model_info \<Rightarrow> bool
     \<Rightarrow> compat_error + (transform list \<times> transform list \<times> config)" where
  "check_model_compatibility model_config run_config model strict_mode =
     bind_err (check_value_range model_config run_config strict_mode ([], [])) (\<lambda>pp1.
     bind_err (check_actions model_config run_config model) (\<lambda>_.
     bind_err (check_img_shape model_config run_config strict_mode pp1) (\<lambda>pp2.
     bind_err (check_frames model_config run_config model) (\<lambda>rc.
       Inr (fst pp2, snd pp2, rc)))))"

definition is_ScaleToModel :: "transform \<Rightarrow> bool" where
  "is_ScaleToModel t = (case t of ScaleToModel _ _ \<Rightarrow> True | _ \<Rightarrow> False)"

definition is_ScaleToTest :: "transform \<Rightarrow> bool" where
  "is_ScaleToTest t = (case t of ScaleToTest _ _ \<Rightarrow> True | _ \<Rightarrow> False)"

section \<open>The dataset (\<open>dataset.py\<close>)\<close>

subsection \<open>Arrays and the file system\<close>

text \<open>
  A numpy array or torch tensor is its shape, its element type and its elements in
  row-major order. Pixel values are kept as exact integers: \<open>astype('float32')\<close>
  changes the element type and keeps the values (8-bit pixel values are exactly
  representable in float32). \<open>ObjectArray\<close> is numpy's \<open>object\<close> element type, which
  \<open>np.expand_dims\<close> produces from \<open>None\<close>.

  The file system is what the dataset reads of it: \<open>os.listdir\<close> (in the order the
  operating system returns the names) and the two modes of \<open>cv2.imread\<close>, which returns
  \<open>None\<close> for a file it cannot read.
\<close>

datatype dtype = UInt8 | Float32 | ObjectArray

record ndarray =
  shape :: "nat list"
  dtype :: dtype
  elems :: "int list"

record filesystem =
  listdir :: "string \<rightharpoonup> string list"
  imread_color :: "string \<rightharpoonup> ndarray"
  imread_gray :: "string \<rightharpoonup> ndarray"

fun bgr2rgb :: "int list \<Rightarrow> int list" where
  "bgr2rgb (b # g # r # rest) = r # g # b # bgr2rgb rest"
| "bgr2rgb rest = rest"

definition cvtColor_BGR2RGB :: "ndarray option \<Rightarrow> py_error + ndarray" where
  "cvtColor_BGR2RGB img =
     (case img of
        None \<Rightarrow> Inl CvError
      | Some a \<Rightarrow> (case shape a of
                    [h, w, c] \<Rightarrow> if c = 3 then Inr (a\<lparr>elems := bgr2rgb (elems a)\<rparr>)
                                else Inl CvError
                  | _ \<Rightarrow> Inl CvError))"

definition expand_dims_last :: "ndarray option \<Rightarrow> ndarray" where
  "expand_dims_last a =
     (case a of
        None \<Rightarrow> \<lparr>shape = [1], dtype = ObjectArray, elems = []\<rparr>
      | Some m \<Rightarrow> m\<lparr>shape := shape m @ [1]\<rparr>)"

definition transpose_201 :: "ndarray \<Rightarrow> py_error + ndarray" where
  "transpose_201 x =
     (case shape x of
        [s0, s1, s2] \<Rightarrow>
          Inr (x\<lparr>shape := [s2, s0, s1],
                 elems := concat (map (\<lambda>c. concat (map (\<lambda>i. map (\<lambda>j. elems x ! ((i * s1 + j) * s2 + c))
                              [0..<s1]) [0..<s0])) [0..<s2])\<rparr>)
      | _ \<Rightarrow> Inl ValueError)"

definition to_torch :: "ndarray \<Rightarrow> py_error + ndarray" where
  "to_torch x = bind_err (transpose_201 x) (\<lambda>t. Inr (t\<lparr>dtype := Float32\<rparr>))"

subsection \<open>Strings, paths and list indexing\<close>

text \<open>
  A string is the list of its bytes; the order on strings is the lexicographic order of
  the bytes, which for UTF-8 is the order of the code points that \<open>sorted\<close> uses.
  \<open>os.path.join\<close> is the POSIX one. \<open>str.lower\<close> is modelled on the letters \<open>A\<close> to
  \<open>Z\<close> (the class names are ASCII). \<open>getitem\<close> is Python's list indexing, where a
  negative index counts from the end and an index out of range raises.
\<close>

definition os_path_join :: "string \<Rightarrow> string \<Rightarrow> string" where
  "os_path_join a b =
     (if b \<noteq> [] \<and> hd b = CHR ''/'' then b
      else if a = [] \<or> last a = CHR ''/'' then a @ b
      else a @ ''/'' @ b)"

function str_nat :: "nat \<Rightarrow> string" where
  "str_nat n = (if n < 10 then [char_of (48 + n)]
                else str_nat (n div 10) @ [char_of (48 + n mod 10)])"
  by pat_completeness auto
termination
  by (relation "measure id") auto

definition lower_char :: "char \<Rightarrow> char" where
  "lower_char c = (if CHR ''A'' \<le> c \<and> c \<le> CHR ''Z'' then char_of (of_char c + (32::nat)) else c)"

definition lower :: "string \<Rightarrow> string" where
  "lower s = map lower_char s"

fun list_index :: "'a list \<Rightarrow> 'a \<Rightarrow> py_error + nat" where
  "list_index [] v = Inl ValueError"
| "list_index (x # xs) v = (if x = v then Inr 0 else bind_err (list_index xs v) (\<lambda>k. Inr (Suc k)))"

definition getitem :: "'a list \<Rightarrow> int \<Rightarrow> py_error + 'a" where
  "getitem xs i =
     (if 0 \<le> i \<and> i < int (length xs) then Inr (xs ! nat i)
      else if i < 0 \<and> - int (length xs) \<le> i then Inr (xs ! nat (int (length xs) + i))
      else Inl IndexError)"

subsection \<open>Python values and keyword calls\<close>

text \<open>
  The constructor is called with keyword arguments only. A signature lists the parameter
  names (after \<open>self\<close>) with their defaults; binding raises \<open>TypeError\<close> for a keyword
  that names no parameter and for a parameter with neither argument nor default. The
  values that reach the constructor are \<open>None\<close>, strings, lists of strings and
  augmentation pipelines; a pipeline is a function of image and mask that may raise.
\<close>

type_synonym augmentation = "ndarray \<Rightarrow> ndarray \<Rightarrow> py_error + (ndarray \<times> ndarray)"

datatype pyval = PyNone | PyStr string | PyList "string list" | PyAug augmentation

type_synonym signature = "(string \<times> pyval option) list"

definition bind_kwargs :: "signature \<Rightarrow> (string \<times> pyval) list \<Rightarrow> py_error + (string \<Rightarrow> pyval)" where
  "bind_kwargs params kwargs =
     (if \<exists>k \<in> set (map fst kwargs). k \<notin> set (map fst params) then Inl TypeError
      else if \<exists>(p, d) \<in> set params. d = None \<and> map_of kwargs p = None then Inl TypeError
      else Inr (\<lambda>p. case map_of kwargs p of
                       Some v \<Rightarrow> v
                     | None \<Rightarrow> (case map_of params p of Some (Some d) \<Rightarrow> d | _ \<Rightarrow> PyNone)))"

subsection \<open>\<open>SynpickDataset\<close>\<close>

definition NUM_CLASSES :: nat where
  "NUM_CLASSES = 22"

definition CLASSES :: "string list" where
  "CLASSES = map (\<lambda>i. ''object_'' @ str_nat i) [1..<NUM_CLASSES]"

record SynpickDataset =
  image_ids :: "string list"
  mask_ids :: "string list"
  images_fps :: "string list"
  masks_fps :: "string list"
  class_values :: "nat list"
  augmentation :: pyval
  preprocessing :: pyval

definition os_listdir :: "filesystem \<Rightarrow> pyval \<Rightarrow> py_error + string list" where
  "os_listdir fs d =
     (case d of
        PyStr path \<Rightarrow> (case listdir fs path of None \<Rightarrow> Inl FileNotFoundError | Some names \<Rightarrow> Inr names)
      | _ \<Rightarrow> Inl TypeError)"

fun class_values_of :: "string list \<Rightarrow> py_error + nat list" where
  "class_values_of [] = Inr []"
| "class_values_of (cls # rest) =
     bind_err (list_index CLASSES (lower cls)) (\<lambda>k.
     bind_err (class_values_of rest) (\<lambda>vs. Inr ((k + 1) # vs)))"

definition iter_classes :: "pyval \<Rightarrow> py_error + string list" where
  "iter_classes classes =
     (case classes of
        PyList cs \<Rightarrow> Inr cs
      | PyStr s \<Rightarrow> Inr (map (\<lambda>c. [c]) s)
      | _ \<Rightarrow> Inl TypeError)"

definition SynpickDataset_init ::
  "filesystem \<Rightarrow> pyval \<Rightarrow> pyval \<Rightarrow> pyval \<Rightarrow> pyval \<Rightarrow> pyval \<Rightarrow> py_error + SynpickDataset" where
  "SynpickDataset_init fs images_dir masks_dir classes augmentation_arg preprocessing_arg =
     bind_err (os_listdir fs images_dir) (\<lambda>image_listing.
     bind_err (os_listdir fs masks_dir) (\<lambda>mask_listing.
       let image_ids' = sort image_listing;
           mask_ids' = sort mask_listing;
           images_dir' = (case images_dir of PyStr p \<Rightarrow> p | _ \<Rightarrow> []);
           masks_dir' = (case masks_dir of PyStr p \<Rightarrow> p | _ \<Rightarrow> []);
           images_fps' = map (os_path_join images_dir') image_ids';
           masks_fps' = map (os_path_join masks_dir') mask_ids'
       in bind_err (iter_classes classes) (\<lambda>cs.
          bind_err (class_values_of cs) (\<lambda>class_values'.
            Inr \<lparr>image_ids = image_ids', mask_ids = mask_ids',
                 images_fps = images_fps', masks_fps = masks_fps',
                 class_values = class_values',
                 augmentation = augmentation_arg, preprocessing = preprocessing_arg\<rparr>))))"

definition SynpickDataset_signature :: signature where
  "SynpickDataset_signature =
     [(''images_dir'', None), (''masks_dir'', None), (''classes'', Some PyNone),
      (''augmentation'', Some PyNone), (''preprocessing'', Some PyNone)]"

definition SynpickDataset_call :: "filesystem \<Rightarrow> (string \<times> pyval) list \<Rightarrow> py_error + SynpickDataset" where
  "SynpickDataset_call fs kwargs =
     bind_err (bind_kwargs SynpickDataset_signature kwargs) (\<lambda>a.
       SynpickDataset_init fs (a ''images_dir'') (a ''masks_dir'') (a ''classes'')
         (a ''augmentation'') (a ''preprocessing''))"

definition apply_augmentation :: "pyval \<Rightarrow> ndarray \<Rightarrow> ndarray \<Rightarrow> py_error + (ndarray \<times> ndarray)" where
  "apply_augmentation aug img msk =
     (case aug of
        PyNone \<Rightarrow> Inr (img, msk)
      | PyAug f \<Rightarrow> f img msk
      | PyStr s \<Rightarrow> if s = [] then Inr (img, msk) else Inl TypeError
      | PyList l \<Rightarrow> if l = [] then Inr (img, msk) else Inl TypeError)"

definition SynpickDataset_getitem ::
  "filesystem \<Rightarrow> SynpickDataset \<Rightarrow> int \<Rightarrow> py_error + (ndarray \<times> ndarray)" where
  "SynpickDataset_getitem fs self i =
     bind_err (getitem (images_fps self) i) (\<lambda>image_path.
     bind_err (cvtColor_BGR2RGB (imread_color fs image_path)) (\<lambda>img.
     bind_err (getitem (masks_fps self) i) (\<lambda>mask_path.
       let msk = expand_dims_last (imread_gray fs mask_path)
       in bind_err (apply_augmentation (augmentation self) img msk) (\<lambda>(img', msk').
          bind_err (to_torch img') (\<lambda>image_t.
          bind_err (to_torch msk') (\<lambda>mask_t.
            Inr (image_t, mask_t)))))))"

definition SynpickDataset_len :: "SynpickDataset \<Rightarrow> nat" where
  "SynpickDataset_len self = length (image_ids self)"

section \<open>\<open>main\<close>\<close>

text \<open>
  \<open>main\<close> up to the end of the run. The two augmentation pipelines are the results of
  \<open>get_training_augmentation()\<close> and \<open>get_validation_augmentation()\<close>, evaluated
  before the constructor is called. The data loaders, the network, the loss and the
  visualisation are collaborators whose effect on the orchestrator is the accuracy
  \<open>acc\<close>. The result pairs the outcome (an exception or the loaded best model) with
  \<open>trained\<close>, the learning rates of the epochs whose training batches were executed.
\<close>

record main_result =
  outcome :: "py_error + nat"
  trained :: "rat list"

definition main ::
  "filesystem \<Rightarrow> augmentation \<Rightarrow> augmentation \<Rightarrow> (nat \<Rightarrow> rat) \<Rightarrow> string list \<Rightarrow> main_result" where
  "main fs training_augmentation validation_augmentation acc args =
     (case getitem args 0 of
        Inl e \<Rightarrow> \<lparr>outcome = Inl e, trained = []\<rparr>
      | Inr data_dir \<Rightarrow>
          let train_dir = os_path_join data_dir ''train'';
              val_dir = os_path_join data_dir ''val'';
              test_dir = os_path_join data_dir ''test''
          in case SynpickDataset_call fs
                    [(''data_dir'', PyStr train_dir), (''augmentation'', PyAug training_augmentation)] of
               Inl e \<Rightarrow> \<lparr>outcome = Inl e, trained = []\<rparr>
             | Inr train_data \<Rightarrow>
          (case SynpickDataset_call fs
                    [(''data_dir'', PyStr val_dir), (''augmentation'', PyAug validation_augmentation)] of
               Inl e \<Rightarrow> \<lparr>outcome = Inl e, trained = []\<rparr>
             | Inr val_data \<Rightarrow>
          (let s = training_loop acc NUM_EPOCHS LEARNING_RATE
           in case torch_load s ''best_model.pth'' of
                Inl e \<Rightarrow> \<lparr>outcome = Inl e, trained = lr_used s\<rparr>
              | Inr best_model \<Rightarrow>
          (case SynpickDataset_call fs
                    [(''data_dir'', PyStr test_dir), (''augmentation'', PyAug validation_augmentation)] of
               Inl e \<Rightarrow> \<lparr>outcome = Inl e, trained = lr_used s\<rparr>
             | Inr test_data \<Rightarrow> \<lparr>outcome = Inr best_model, trained = lr_used s\<rparr>))))"

section \<open>The segmentation network (\<open>models/seg_model.py\<close>)\<close>

subsection \<open>Layers on tensor shapes\<close>

text \<open>
  The claims about the network are about tensor shapes, so a tensor is its shape
  (\<open>x.shape\<close>, a list of dimensions) and a layer is the function it computes on shapes,
  with the exceptions it raises. The layers are PyTorch's, built with the arguments the
  source gives them:
  \<^item> \<open>Conv2d\<close> (input channels, output channels, kernel size, stride, padding) needs the
    input's channel count to be its own and the padded input to be no smaller than the
    kernel; each spatial size \<open>n\<close> becomes \<open>(n + 2 * padding - kernel) div stride + 1\<close>;
  \<^item> \<open>BatchNorm2d\<close> needs a 4-D input; in training mode it raises \<open>ValueError\<close> when
    there is a single value per channel (batch times height times width is 1);
  \<^item> \<open>MaxPool2d\<close> (kernel size, stride) maps \<open>n\<close> to \<open>(n - kernel) div stride + 1\<close> and
    raises when the output would be empty;
  \<^item> \<open>ConvTranspose2d\<close> (input channels, output channels, kernel size, stride) maps \<open>n\<close>
    to \<open>(n - 1) * stride + kernel\<close>;
  \<^item> \<open>TF.resize\<close> with a size of two numbers gives the tensor those two spatial
    dimensions; \<open>torch.cat\<close> along dimension 1 adds the channel counts of two tensors
    that agree in every other dimension.
  The first layer applied by \<open>forward\<close> is a \<open>DoubleConv\<close>, whose \<open>BatchNorm2d\<close>
  rejects everything but 4-D tensors, so every layer here raises on a shape that is not
  4-D. \<open>training\<close> is the module's mode flag (\<open>True\<close> after construction, \<open>False\<close>
  after \<open>eval()\<close>).
\<close>

type_synonym tshape = "nat list"

datatype layer =
    Conv2d nat nat nat nat nat
  | BatchNorm2d nat
  | ReLU
  | MaxPool2d nat nat
  | ConvTranspose2d nat nat nat nat

datatype module = Layer layer | DoubleConv "layer list"

fun apply_layer :: "bool \<Rightarrow> layer \<Rightarrow> tshape \<Rightarrow> py_error + tshape" where
  "apply_layer tr (Conv2d in_channels out_channels kernel_size stride padding) [b, c, h, w] =
     (if c \<noteq> in_channels then Inl RuntimeError
      else if h + 2 * padding < kernel_size \<or> w + 2 * padding < kernel_size then Inl RuntimeError
      else Inr [b, out_channels,
                (h + 2 * padding - kernel_size) div stride + 1,
                (w + 2 * padding - kernel_size) div stride + 1])"
| "apply_layer tr (BatchNorm2d num_features) [b, c, h, w] =
     (if tr \<and> b * h * w = 1 then Inl ValueError
      else if c \<noteq> num_features then Inl RuntimeError
      else Inr [b, c, h, w])"
| "apply_layer tr ReLU [b, c, h, w] = Inr [b, c, h, w]"
| "apply_layer tr (MaxPool2d kernel_size stride) [b, c, h, w] =
     (if h < kernel_size \<or> w < kernel_size then Inl RuntimeError
      else Inr [b, c, (h - kernel_size) div stride + 1, (w - kernel_size) div stride + 1])"
| "apply_layer tr (ConvTranspose2d in_channels out_channels kernel_size stride) [b, c, h, w] =
     (if c \<noteq> in_channels then Inl RuntimeError
      else Inr [b, out_channels,
                nat ((int h - 1) * int stride + int kernel_size),
                nat ((int w - 1) * int stride + int kernel_size)])"
| "apply_layer tr l x = Inl ValueError"

fun apply_seq :: "bool \<Rightarrow> layer list \<Rightarrow> tshape \<Rightarrow> py_error + tshape" where
  "apply_seq tr [] x = Inr x"
| "apply_seq tr (l # ls) x = bind_err (apply_layer tr l x) (apply_seq tr ls)"

fun apply_module :: "bool \<Rightarrow> module \<Rightarrow> tshape \<Rightarrow> py_error + tshape" where
  "apply_module tr (Layer l) x = apply_layer tr l x"
| "apply_module tr (DoubleConv conv) x = apply_seq tr conv x"

fun TF_resize :: "tshape \<Rightarrow> nat list \<Rightarrow> py_error + tshape" where
  "TF_resize [b, c, h, w] [h', w'] =
     (if h = 0 \<or> w = 0 \<or> h' = 0 \<or> w' = 0 then Inl RuntimeError else Inr [b, c, h', w'])"
| "TF_resize x sz = Inl ValueError"

fun torch_cat_dim1 :: "tshape \<Rightarrow> tshape \<Rightarrow> py_error + tshape" where
  "torch_cat_dim1 [b1, c1, h1, w1] [b2, c2, h2, w2] =
     (if b1 = b2 \<and> h1 = h2 \<and> w1 = w2 then Inr [b1, c1 + c2, h1, w1] else Inl RuntimeError)"
| "torch_cat_dim1 x y = Inl RuntimeError"

subsection \<open>\<open>DoubleConv\<close> and \<open>UNet\<close>\<close>

definition DoubleConv_init :: "nat \<Rightarrow> nat \<Rightarrow> module" where
  "DoubleConv_init in_channels out_channels =
     DoubleConv [Conv2d in_channels out_channels 3 1 1, BatchNorm2d out_channels, ReLU,
                 Conv2d out_channels out_channels 3 1 1, BatchNorm2d out_channels, ReLU]"

record UNet =
  downs :: "module list"
  ups :: "module list"
  pool :: layer
  bottleneck :: module
  final_conv :: layer
  training :: bool

fun build_downs :: "nat \<Rightarrow> nat list \<Rightarrow> module list" where
  "build_downs in_channels [] = []"
| "build_downs in_channels (feature # features) =
     DoubleConv_init in_channels feature # build_downs feature features"

definition build_ups :: "nat list \<Rightarrow> module list" where
  "build_ups features =
     concat (map (\<lambda>feature. [Layer (ConvTranspose2d (feature * 2) feature 2 2),
                               DoubleConv_init (feature * 2) feature])
                 (rev features))"

definition UNet_init :: "nat \<Rightarrow> nat \<Rightarrow> nat list \<Rightarrow> py_error + UNet" where
  "UNet_init in_channels out_channels features =
     bind_err (getitem features (- 1)) (\<lambda>last_feature.
     bind_err (getitem features 0) (\<lambda>first_feature.
       Inr \<lparr>downs = build_downs in_channels features,
            ups = build_ups features,
            pool = MaxPool2d 2 2,
            bottleneck = DoubleConv_init last_feature (last_feature * 2),
            final_conv = Conv2d first_feature out_channels 1 1 0,
            training = True\<rparr>))"

definition default_features :: "nat list" where
  "default_features = [64, 128, 256, 512]"

definition eval_mode :: "UNet \<Rightarrow> UNet" where
  "eval_mode self = self\<lparr>training := False\<rparr>"

subsection \<open>\<open>UNet.forward\<close>\<close>

text \<open>
  The decoder loop runs over \<open>range(0, len(self.ups), 2)\<close> and reads \<open>self.ups[i]\<close>,
  \<open>skip_connections[i//2]\<close> and \<open>self.ups[i+1]\<close> by index. Besides the tensor it
  computes, the model of the loop records each stage it has run: the upsampled tensor,
  the skip connection it met, and the tensor after reconciliation. \<open>forward\<close> drops the
  record.
\<close>

type_synonym stage = "tshape \<times> tshape \<times> tshape"

fun down_loop ::
  "bool \<Rightarrow> layer \<Rightarrow> module list \<Rightarrow> tshape \<Rightarrow> tshape list \<Rightarrow> py_error + (tshape \<times> tshape list)" where
  "down_loop tr pl [] x skip_connections = Inr (x, skip_connections)"
| "down_loop tr pl (down # rest) x skip_connections =
     bind_err (apply_module tr down x) (\<lambda>x1.
     bind_err (apply_layer tr pl x1) (\<lambda>x2.
       down_loop tr pl rest x2 (skip_connections @ [x1])))"

definition reconcile :: "tshape \<Rightarrow> tshape \<Rightarrow> py_error + tshape" where
  "reconcile x skip_connection =
     (if x \<noteq> skip_connection then TF_resize x (drop 2 skip_connection) else Inr x)"

definition up_step ::
  "bool \<Rightarrow> module list \<Rightarrow> tshape list \<Rightarrow> nat \<Rightarrow> tshape \<times> stage list
     \<Rightarrow> py_error + (tshape \<times> stage list)" where
  "up_step tr ups_list skip_connections i st =
     (let (x, stages) = st
      in bind_err (getitem ups_list (int i)) (\<lambda>up.
         bind_err (apply_module tr up x) (\<lambda>x1.
         bind_err (getitem skip_connections (int (i div 2))) (\<lambda>skip_connection.
         bind_err (reconcile x1 skip_connection) (\<lambda>x2.
         bind_err (torch_cat_dim1 skip_connection x2) (\<lambda>concat_skip.
         bind_err (getitem ups_list (int (i + 1))) (\<lambda>double_conv.
         bind_err (apply_module tr double_conv concat_skip) (\<lambda>x3.
           Inr (x3, stages @ [(x1, skip_connection, x2)])))))))))"

fun up_loop ::
  "bool \<Rightarrow> module list \<Rightarrow> tshape list \<Rightarrow> nat list \<Rightarrow> tshape \<times> stage list
     \<Rightarrow> py_error + (tshape \<times> stage list)" where
  "up_loop tr ups_list skip_connections [] st = Inr st"
| "up_loop tr ups_list skip_connections (i # rest) st =
     bind_err (up_step tr ups_list skip_connections i st) (up_loop tr ups_list skip_connections rest)"

definition range_step2 :: "nat \<Rightarrow> nat list" where
  "range_step2 n = map (\<lambda>j. 2 * j) [0..<(n + 1) div 2]"

definition forward_stages :: "UNet \<Rightarrow> tshape \<Rightarrow> py_error + (tshape \<times> stage list)" where
  "forward_stages self x =
     bind_err (down_loop (training self) (pool self) (downs self) x []) (\<lambda>(x1, skip_connections).
     bind_err (apply_module (training self) (bottleneck self) x1) (\<lambda>x2.
     bind_err (up_loop (training self) (ups self) (rev skip_connections)
                 (range_step2 (length (ups self))) (x2, [])) (\<lambda>(x3, stages).
     bind_err (apply_layer (training self) (final_conv self) x3) (\<lambda>y.
       Inr (y, stages)))))"

definition forward :: "UNet \<Rightarrow> tshape \<Rightarrow> py_error + tshape" where
  "forward self x = bind_err (forward_stages self x) (\<lambda>(y, stages). Inr y)"

definition spatial :: "tshape \<Rightarrow> nat list" where
  "spatial x = drop 2 x"

definition resized :: "stage \<Rightarrow> bool" where
  "resized st = (case st of (upsampled, skip_connection, reconciled) \<Rightarrow> upsampled \<noteq> skip_connection)"

definition doubling :: "nat \<Rightarrow> nat \<Rightarrow> nat list" where
  "doubling f d = map (\<lambda>i. f * 2 ^ i) [0..<d]"

section \<open>Example inputs\<close>

text \<open>Concrete configurations: a model trained on values in \<open>[-1, 1]\<close>, a run on \<open>[0, 1]\<close>.\<close>

definition example_model_config :: config where
  "example_model_config =
     \<lparr>tensor_value_range = (- 1, 1), use_actions = False, action_size = 0,
      img_shape = (3, 64, 64), context_frames = Some 10, pred_frames = Some 10\<rparr>"

definition example_run_config :: config where
  "example_run_config =
     \<lparr>tensor_value_range = (0, 1), use_actions = False, action_size = 0,
      img_shape = (3, 64, 64), context_frames = None, pred_frames = None\<rparr>"

definition example_model :: model_info where
  "example_model = \<lparr>can_handle_actions = False, min_context_frames = 2\<rparr>"

text \<open>
  A data directory whose image and mask listings differ: images \<open>a.png\<close> and \<open>b.png\<close>,
  masks \<open>b.png\<close> and \<open>c.png\<close>, each image one pixel high and two wide.
\<close>

definition example_fs :: filesystem where
  "example_fs =
     \<lparr>listdir = map_of
        [(''data/images'', [''b.png'', ''a.png'']),
         (''data/masks'', [''c.png'', ''b.png''])],
      imread_color = map_of
        [(''data/images/a.png'', \<lparr>shape = [1, 2, 3], dtype = UInt8, elems = [1, 2, 3, 4, 5, 6]\<rparr>),
         (''data/images/b.png'', \<lparr>shape = [1, 2, 3], dtype = UInt8, elems = [7, 8, 9, 10, 11, 12]\<rparr>)],
      imread_gray = map_of
        [(''data/masks/b.png'', \<lparr>shape = [1, 2], dtype = UInt8, elems = [0, 255]\<rparr>),
         (''data/masks/c.png'', \<lparr>shape = [1, 2], dtype = UInt8, elems = [3, 21]\<rparr>)]\<rparr>"

definition identity_augmentation :: augmentation where
  "identity_augmentation img msk = Inr (img, msk)"

definition example_dataset :: SynpickDataset where
  "example_dataset =
     \<lparr>image_ids = [''a.png'', ''b.png''], mask_ids = [''b.png'', ''c.png''],
      images_fps = [''data/images/a.png'', ''data/images/b.png''],
      masks_fps = [''data/masks/b.png'', ''data/masks/c.png''],
      class_values = [1, 21], augmentation = PyNone, preprocessing = PyNone\<rparr>"

text \<open>
  Two networks as \<open>UNet(in_channels=3, out_channels=22)\<close> builds them: with the default
  feature widths, and with four equal widths.
\<close>

definition fresh_unet :: UNet where
  "fresh_unet =
     \<lparr>downs = build_downs 3 default_features,
      ups = build_ups default_features,
      pool = MaxPool2d 2 2,
      bottleneck = DoubleConv_init 512 1024,
      final_conv = Conv2d 64 22 1 1 0,
      training = True\<rparr>"

definition flat_unet :: UNet where
  "flat_unet =
     \<lparr>downs = build_downs 3 [64, 64, 64, 64],
      ups = build_ups [64, 64, 64, 64],
      pool = MaxPool2d 2 2,
      bottleneck = DoubleConv_init 64 128,
      final_conv = Conv2d 64 22 1 1 0,
      training = True\<rparr>"

section \<open>Properties of the value-range adapters\<close>

lemma ScaleToTest_ScaleToModel_elem:
  "snd m \<noteq> fst m \<Longrightarrow> snd t \<noteq> fst t \<Longrightarrow> ScaleToTest_elem m t (ScaleToModel_elem m t x) = x"
  by (cases m; cases t) (simp add: ScaleToTest_elem_def ScaleToModel_elem_def)

lemma ScaleToModel_ScaleToTest_elem:
  "snd m \<noteq> fst m \<Longrightarrow> snd t \<noteq> fst t \<Longrightarrow> ScaleToModel_elem m t (ScaleToTest_elem m t x) = x"
  by (cases m; cases t) (simp add: ScaleToTest_elem_def ScaleToModel_elem_def)

text \<open>
  Claim C8. For every image tensor and every pair of value ranges whose maximum differs
  from its minimum, \<open>ScaleToTest\<close> and \<open>ScaleToModel\<close> built from the same two ranges
  undo each other in both orders, over exact rational arithmetic.
\<close>

theorem scale_adapters_mutually_inverse:
  assumes "snd model_value_range \<noteq> fst model_value_range"
    and "snd test_value_range \<noteq> fst test_value_range"
  shows "ScaleToTest_forward model_value_range test_value_range
           (ScaleToModel_forward model_value_range test_value_range img) = img
       \<and> ScaleToModel_forward model_value_range test_value_range
           (ScaleToTest_forward model_value_range test_value_range img) = img"
  using assms
  by (simp add: ScaleToTest_forward_def ScaleToModel_forward_def
      ScaleToTest_ScaleToModel_elem ScaleToModel_ScaleToTest_elem map_idI)

theorem scale_adapters_mutually_inverse_witness:
  "ScaleToModel_forward (- 1, 1) (0, 255) [0, 51, 255] = [- 1, - 3 / 5, 1]
   \<and> ScaleToTest_forward (- 1, 1) (0, 255) [- 1, - 3 / 5, 1] = [0, 51, 255]
   \<and> ScaleToTest_forward (- 1, 1) (0, 255) (ScaleToModel_forward (- 1, 1) (0, 255) [0, 51, 255]) = [0, 51, 255]
   \<and> ScaleToModel_forward (- 1, 1) (0, 255) (ScaleToTest_forward (- 1, 1) (0, 255) [0, 51, 255]) = [0, 51, 255]"
  using scale_adapters_mutually_inverse [of "(- 1, 1)" "(0, 255)" "[0, 51, 255]"]
  by (simp add: ScaleToTest_forward_def ScaleToModel_forward_def ScaleToTest_elem_def ScaleToModel_elem_def)

section \<open>Properties of the training orchestrator\<close>

lemma training_loop_0: "training_loop acc 0 r = init_orchestrator r"
  by (simp add: training_loop_def)

lemma training_loop_Suc: "training_loop acc (Suc n) r = epoch acc (training_loop acc n r) n"
  by (simp add: training_loop_def)

lemma max_accuracy_Suc:
  "max_accuracy (training_loop acc (Suc n) r) =
     (if max_accuracy (training_loop acc n r) < acc n then acc n
      else max_accuracy (training_loop acc n r))"
  by (simp add: training_loop_Suc epoch_def lr_schedule_def maybe_checkpoint_def train_batches_def)

lemma saved_at_Suc:
  "saved_at (training_loop acc (Suc n) r) =
     saved_at (training_loop acc n r) @
       (if max_accuracy (training_loop acc n r) < acc n then [n] else [])"
  by (simp add: training_loop_Suc epoch_def lr_schedule_def maybe_checkpoint_def train_batches_def)

lemma run_dir_Suc:
  "run_dir (training_loop acc (Suc n) r) =
     (if max_accuracy (training_loop acc n r) < acc n
      then (run_dir (training_loop acc n r))(''best_model.pth'' \<mapsto> n)
      else run_dir (training_loop acc n r))"
  by (simp add: training_loop_Suc epoch_def lr_schedule_def maybe_checkpoint_def train_batches_def)

lemma max_accuracy_step: "max_accuracy (training_loop acc n r) \<le> max_accuracy (training_loop acc (Suc n) r)"
  by (simp add: max_accuracy_Suc)

lemma max_accuracy_mono:
  "n \<le> m \<Longrightarrow> max_accuracy (training_loop acc n r) \<le> max_accuracy (training_loop acc m r)"
proof (induction m)
  case 0
  then show ?case by simp
next
  case (Suc m)
  show ?case
  proof (cases "n = Suc m")
    case True
    then show ?thesis by simp
  next
    case False
    with Suc.prems have "n \<le> m" by simp
    with Suc.IH have "max_accuracy (training_loop acc n r) \<le> max_accuracy (training_loop acc m r)" .
    also have "\<dots> \<le> max_accuracy (training_loop acc (Suc m) r)" by (rule max_accuracy_step)
    finally show ?thesis .
  qed
qed

lemma acc_le_max_accuracy:
  "j < n \<Longrightarrow> acc j \<le> max_accuracy (training_loop acc n r)"
proof (induction n)
  case 0
  then show ?case by simp
next
  case (Suc n)
  show ?case
  proof (cases "j = n")
    case True
    then show ?thesis by (simp add: max_accuracy_Suc)
  next
    case False
    with Suc.prems have "j < n" by simp
    with Suc.IH have "acc j \<le> max_accuracy (training_loop acc n r)" .
    also have "\<dots> \<le> max_accuracy (training_loop acc (Suc n) r)" by (rule max_accuracy_step)
    finally show ?thesis .
  qed
qed

lemma saved_at_set:
  "set (saved_at (training_loop acc n r)) =
     {i. i < n \<and> max_accuracy (training_loop acc i r) < acc i}"
proof (induction n)
  case 0
  show ?case by (simp add: training_loop_0 init_orchestrator_def)
next
  case (Suc n)
  then show ?case by (auto simp: saved_at_Suc less_Suc_eq)
qed

lemma checkpoint_invariant:
  "case run_dir (training_loop acc n r) ''best_model.pth'' of
     None \<Rightarrow> max_accuracy (training_loop acc n r) = 0 \<and> saved_at (training_loop acc n r) = []
   | Some k \<Rightarrow> k < n \<and> acc k = max_accuracy (training_loop acc n r) \<and> (\<forall>j<k. acc j < acc k)
        \<and> saved_at (training_loop acc n r) \<noteq> [] \<and> last (saved_at (training_loop acc n r)) = k"
proof (induction n)
  case 0
  show ?case by (simp add: training_loop_0 init_orchestrator_def)
next
  case (Suc n)
  show ?case
  proof (cases "max_accuracy (training_loop acc n r) < acc n")
    case True
    have "\<forall>j<n. acc j < acc n"
    proof (intro allI impI)
      fix j assume "j < n"
      then have "acc j \<le> max_accuracy (training_loop acc n r)" by (rule acc_le_max_accuracy)
      with True show "acc j < acc n" by simp
    qed
    with True show ?thesis by (simp add: run_dir_Suc max_accuracy_Suc saved_at_Suc)
  next
    case False
    with Suc show ?thesis
      by (auto simp: run_dir_Suc max_accuracy_Suc saved_at_Suc split: option.splits)
  qed
qed

lemma checkpoint_is_best:
  assumes "run_dir (training_loop acc n r) ''best_model.pth'' = Some k"
  shows "k < n \<and> acc k = max_accuracy (training_loop acc n r)
         \<and> (\<forall>j<n. acc j \<le> acc k) \<and> (\<forall>j<k. acc j < acc k)"
proof -
  from checkpoint_invariant [of acc n r] assms
  have a: "k < n" "acc k = max_accuracy (training_loop acc n r)" "\<forall>j<k. acc j < acc k"
    by auto
  have "\<forall>j<n. acc j \<le> acc k" using a(2) acc_le_max_accuracy [of _ n acc r] by simp
  with a show ?thesis by simp
qed

lemma lr_training_loop: "lr (training_loop acc n r) = (if n \<le> 25 then r else r * (1 / 10))"
proof (induction n)
  case 0
  show ?case by (simp add: training_loop_0 init_orchestrator_def)
next
  case (Suc n)
  then show ?case
    by (auto simp: training_loop_Suc epoch_def lr_schedule_def maybe_checkpoint_def train_batches_def)
qed

lemma lr_used_training_loop:
  "lr_used (training_loop acc n r) = map (\<lambda>i. if i \<le> 25 then r else r * (1 / 10)) [0..<n]"
proof (induction n)
  case 0
  show ?case by (simp add: training_loop_0 init_orchestrator_def)
next
  case (Suc n)
  then show ?case
    by (auto simp: training_loop_Suc epoch_def lr_schedule_def maybe_checkpoint_def
        train_batches_def lr_training_loop)
qed

lemma example_run:
  "saved_at (training_loop (acc_of_list [1 / 2, 7 / 10, 3 / 5, 9 / 10]) 4 r) = [0, 1, 3]
   \<and> max_accuracy (training_loop (acc_of_list [1 / 2, 7 / 10, 3 / 5, 9 / 10]) 4 r) = 9 / 10
   \<and> run_dir (training_loop (acc_of_list [1 / 2, 7 / 10, 3 / 5, 9 / 10]) 4 r) ''best_model.pth'' = Some 3"
  by (simp add: training_loop_def init_orchestrator_def epoch_def lr_schedule_def
      maybe_checkpoint_def train_batches_def acc_of_list_def upt_rec)

text \<open>
  Claim C2. The best accuracy so far starts at 0 and never decreases. In epoch \<open>i\<close>
  the checkpoint is written exactly when the accuracy of that epoch is strictly greater
  than the best so far, and the best is then that accuracy; otherwise best accuracy and
  run directory stay as they were. Whenever a checkpoint exists it is the model of an
  epoch whose accuracy is the best seen so far and strictly better than every earlier
  epoch's. For the accuracies 0.5, 0.7, 0.6, 0.9 the writes are those of epochs 0, 1 and
  3, and the final best accuracy is 0.9.
\<close>

theorem checkpoint_on_improvement:
  "max_accuracy (training_loop acc 0 r) = 0
   \<and> (\<forall>n m. n \<le> m \<longrightarrow>
          max_accuracy (training_loop acc n r) \<le> max_accuracy (training_loop acc m r))
   \<and> (\<forall>i n. i < n \<longrightarrow>
          (i \<in> set (saved_at (training_loop acc n r)))
            = (max_accuracy (training_loop acc i r) < acc i))
   \<and> (\<forall>i. max_accuracy (training_loop acc i r) < acc i \<longrightarrow>
          max_accuracy (training_loop acc (Suc i) r) = acc i
          \<and> run_dir (training_loop acc (Suc i) r) ''best_model.pth'' = Some i)
   \<and> (\<forall>i. \<not> max_accuracy (training_loop acc i r) < acc i \<longrightarrow>
          max_accuracy (training_loop acc (Suc i) r) = max_accuracy (training_loop acc i r)
          \<and> run_dir (training_loop acc (Suc i) r) = run_dir (training_loop acc i r))
   \<and> (\<forall>n k. run_dir (training_loop acc n r) ''best_model.pth'' = Some k \<longrightarrow>
          k < n \<and> acc k = max_accuracy (training_loop acc n r)
          \<and> (\<forall>j<n. acc j \<le> acc k) \<and> (\<forall>j<k. acc j < acc k))
   \<and> saved_at (training_loop (acc_of_list [1 / 2, 7 / 10, 3 / 5, 9 / 10]) 4 r) = [0, 1, 3]
   \<and> max_accuracy (training_loop (acc_of_list [1 / 2, 7 / 10, 3 / 5, 9 / 10]) 4 r) = 9 / 10
   \<and> run_dir (training_loop (acc_of_list [1 / 2, 7 / 10, 3 / 5, 9 / 10]) 4 r) ''best_model.pth''
       = Some 3"
proof -
  have a: "max_accuracy (training_loop acc 0 r) = 0"
    by (simp add: training_loop_0 init_orchestrator_def)
  have b: "\<forall>n m. n \<le> m \<longrightarrow>
          max_accuracy (training_loop acc n r) \<le> max_accuracy (training_loop acc m r)"
    by (simp add: max_accuracy_mono)
  have c: "\<forall>i n. i < n \<longrightarrow>
          (i \<in> set (saved_at (training_loop acc n r)))
            = (max_accuracy (training_loop acc i r) < acc i)"
    by (simp add: saved_at_set)
  have d: "\<forall>i. max_accuracy (training_loop acc i r) < acc i \<longrightarrow>
          max_accuracy (training_loop acc (Suc i) r) = acc i
          \<and> run_dir (training_loop acc (Suc i) r) ''best_model.pth'' = Some i"
    by (simp add: max_accuracy_Suc run_dir_Suc)
  have e: "\<forall>i. \<not> max_accuracy (training_loop acc i r) < acc i \<longrightarrow>
          max_accuracy (training_loop acc (Suc i) r) = max_accuracy (training_loop acc i r)
          \<and> run_dir (training_loop acc (Suc i) r) = run_dir (training_loop acc i r)"
    by (simp add: max_accuracy_Suc run_dir_Suc)
  have f: "\<forall>n k. run_dir (training_loop acc n r) ''best_model.pth'' = Some k \<longrightarrow>
          k < n \<and> acc k = max_accuracy (training_loop acc n r)
          \<and> (\<forall>j<n. acc j \<le> acc k) \<and> (\<forall>j<k. acc j < acc k)"
    using checkpoint_is_best [of acc _ r] by blast
  from a b c d e f example_run [of r] show ?thesis by blast
qed

theorem checkpoint_on_improvement_witness:
  "max_accuracy (training_loop (acc_of_list [1 / 2, 7 / 10, 3 / 5, 9 / 10]) 0 LEARNING_RATE) = 0
   \<and> max_accuracy (training_loop (acc_of_list [1 / 2, 7 / 10, 3 / 5, 9 / 10]) 2 LEARNING_RATE)
       \<le> max_accuracy (training_loop (acc_of_list [1 / 2, 7 / 10, 3 / 5, 9 / 10]) 3 LEARNING_RATE)
   \<and> max_accuracy (training_loop (acc_of_list [1 / 2, 7 / 10, 3 / 5, 9 / 10]) 2 LEARNING_RATE) = 7 / 10
   \<and> acc_of_list [1 / 2, 7 / 10, 3 / 5, 9 / 10] 2 = 3 / 5
   \<and> 2 \<notin> set (saved_at (training_loop (acc_of_list [1 / 2, 7 / 10, 3 / 5, 9 / 10]) 4 LEARNING_RATE))
   \<and> max_accuracy (training_loop (acc_of_list [1 / 2, 7 / 10, 3 / 5, 9 / 10]) 3 LEARNING_RATE) = 7 / 10
   \<and> run_dir (training_loop (acc_of_list [1 / 2, 7 / 10, 3 / 5, 9 / 10]) 3 LEARNING_RATE) ''best_model.pth''
       = Some 1
   \<and> acc_of_list [1 / 2, 7 / 10, 3 / 5, 9 / 10] 3 = 9 / 10
   \<and> 3 \<in> set (saved_at (training_loop (acc_of_list [1 / 2, 7 / 10, 3 / 5, 9 / 10]) 4 LEARNING_RATE))
   \<and> max_accuracy (training_loop (acc_of_list [1 / 2, 7 / 10, 3 / 5, 9 / 10]) 4 LEARNING_RATE) = 9 / 10
   \<and> run_dir (training_loop (acc_of_list [1 / 2, 7 / 10, 3 / 5, 9 / 10]) 4 LEARNING_RATE) ''best_model.pth''
       = Some 3
   \<and> saved_at (training_loop (acc_of_list [1 / 2, 7 / 10, 3 / 5, 9 / 10]) 4 LEARNING_RATE) = [0, 1, 3]"
proof -
  let ?acc = "acc_of_list [1 / 2, 7 / 10, 3 / 5, 9 / 10]"
  note t = checkpoint_on_improvement [of ?acc LEARNING_RATE]
  have m2: "max_accuracy (training_loop ?acc 2 LEARNING_RATE) = 7 / 10"
    by (simp add: training_loop_def init_orchestrator_def epoch_def lr_schedule_def
        maybe_checkpoint_def train_batches_def acc_of_list_def upt_rec)
  have r2: "run_dir (training_loop ?acc 2 LEARNING_RATE) ''best_model.pth'' = Some 1"
    by (simp add: training_loop_def init_orchestrator_def epoch_def lr_schedule_def
        maybe_checkpoint_def train_batches_def acc_of_list_def upt_rec)
  have a2: "?acc 2 = 3 / 5" and a3: "?acc 3 = 9 / 10"
    by (simp_all add: acc_of_list_def)
  from t have mono: "max_accuracy (training_loop ?acc 2 LEARNING_RATE)
       \<le> max_accuracy (training_loop ?acc 3 LEARNING_RATE)" by simp
  from t have no: "\<not> max_accuracy (training_loop ?acc 2 LEARNING_RATE) < ?acc 2 \<longrightarrow>
          max_accuracy (training_loop ?acc (Suc 2) LEARNING_RATE) = max_accuracy (training_loop ?acc 2 LEARNING_RATE)
          \<and> run_dir (training_loop ?acc (Suc 2) LEARNING_RATE) = run_dir (training_loop ?acc 2 LEARNING_RATE)"
    by blast
  have s3: "Suc 2 = 3" by simp
  from no m2 a2 r2 have m3: "max_accuracy (training_loop ?acc 3 LEARNING_RATE) = 7 / 10"
    and r3: "run_dir (training_loop ?acc 3 LEARNING_RATE) ''best_model.pth'' = Some 1"
    unfolding s3 by simp_all
  note c = t [THEN conjunct2, THEN conjunct2, THEN conjunct1, rule_format]
  from c [of 2 4] have iff2: "(2 \<in> set (saved_at (training_loop ?acc 4 LEARNING_RATE)))
            = (max_accuracy (training_loop ?acc 2 LEARNING_RATE) < ?acc 2)" by simp
  from c [of 3 4] have iff3: "(3 \<in> set (saved_at (training_loop ?acc 4 LEARNING_RATE)))
            = (max_accuracy (training_loop ?acc 3 LEARNING_RATE) < ?acc 3)" by simp
  from t have fin: "saved_at (training_loop ?acc 4 LEARNING_RATE) = [0, 1, 3]"
    "max_accuracy (training_loop ?acc 4 LEARNING_RATE) = 9 / 10"
    "run_dir (training_loop ?acc 4 LEARNING_RATE) ''best_model.pth'' = Some 3" by simp_all
  from t have z: "max_accuracy (training_loop ?acc 0 LEARNING_RATE) = 0" by simp
  from z mono m2 a2 a3 m3 r3 iff2 iff3 fin show ?thesis by simp
qed

text \<open>
  Claim C3, as stated, fails: it gives epoch 25 the decayed rate. The source multiplies
  the rate by 0.1 at the end of the body of epoch 25, after that epoch's training batches,
  so the batches of epoch 25 still run at the initial rate.
\<close>

theorem learning_rate_schedule_counterexample:
  "lr_used (training_loop (acc_of_list []) 30 LEARNING_RATE) ! 25 = LEARNING_RATE
   \<and> lr_used (training_loop (acc_of_list []) 30 LEARNING_RATE) ! 25 \<noteq> (1 / 10) * LEARNING_RATE"
  by (simp add: lr_used_training_loop LEARNING_RATE_def)

text \<open>
  Claim C3, amended. In a run of 30 epochs with initial rate \<open>r\<close>, the training batches
  of epochs 0 to 25 use \<open>r\<close> and those of epochs 26 to 29 use \<open>0.1 * r\<close>, whatever the
  accuracies are; the rate after \<open>n\<close> epochs is \<open>r\<close> up to \<open>n = 25\<close> and \<open>0.1 * r\<close>
  from then on, so for \<open>r \<noteq> 0\<close> it changes exactly once, at the end of epoch 25.
\<close>

theorem learning_rate_schedule:
  "lr_used (training_loop acc 30 r) = replicate 26 r @ replicate 4 (r * (1 / 10))
   \<and> (\<forall>i<30. lr_used (training_loop acc 30 r) ! i = (if i \<le> 25 then r else r * (1 / 10)))
   \<and> (\<forall>n. lr (training_loop acc n r) = (if n \<le> 25 then r else r * (1 / 10)))
   \<and> (r \<noteq> 0 \<longrightarrow>
        filter (\<lambda>n. lr (training_loop acc (Suc n) r) \<noteq> lr (training_loop acc n r)) [0..<30] = [25])"
proof -
  have a: "lr_used (training_loop acc 30 r) = replicate 26 r @ replicate 4 (r * (1 / 10))"
    by (auto simp: lr_used_training_loop list_eq_iff_nth_eq nth_append simp del: upt_Suc)
  have b: "\<forall>i<30. lr_used (training_loop acc 30 r) ! i = (if i \<le> 25 then r else r * (1 / 10))"
    by (simp add: lr_used_training_loop del: upt_Suc)
  have c: "\<forall>n. lr (training_loop acc n r) = (if n \<le> 25 then r else r * (1 / 10))"
    by (simp add: lr_training_loop)
  have d: "r \<noteq> 0 \<longrightarrow>
        filter (\<lambda>n. lr (training_loop acc (Suc n) r) \<noteq> lr (training_loop acc n r)) [0..<30] = [25]"
  proof
    assume r: "r \<noteq> 0"
    have "(\<lambda>n. lr (training_loop acc (Suc n) r) \<noteq> lr (training_loop acc n r)) = (\<lambda>n. n = 25)"
      using r by (auto simp: lr_training_loop fun_eq_iff)
    then show "filter (\<lambda>n. lr (training_loop acc (Suc n) r) \<noteq> lr (training_loop acc n r)) [0..<30] = [25]"
      by (simp add: upt_rec)
  qed
  from a b c d show ?thesis by blast
qed

theorem learning_rate_schedule_witness:
  "lr_used (training_loop (acc_of_list [1 / 2, 7 / 10]) 30 LEARNING_RATE) ! 24 = 1 / 10000
   \<and> lr_used (training_loop (acc_of_list [1 / 2, 7 / 10]) 30 LEARNING_RATE) ! 25 = 1 / 10000
   \<and> lr_used (training_loop (acc_of_list [1 / 2, 7 / 10]) 30 LEARNING_RATE) ! 26 = 1 / 100000
   \<and> lr_used (training_loop (acc_of_list [1 / 2, 7 / 10]) 30 LEARNING_RATE) ! 29 = 1 / 100000
   \<and> filter (\<lambda>n. lr (training_loop (acc_of_list [1 / 2, 7 / 10]) (Suc n) LEARNING_RATE)
                  \<noteq> lr (training_loop (acc_of_list [1 / 2, 7 / 10]) n LEARNING_RATE)) [0..<30] = [25]"
proof -
  note t = learning_rate_schedule [of "acc_of_list [1 / 2, 7 / 10]" LEARNING_RATE]
  note b = t [THEN conjunct2, THEN conjunct1, rule_format]
  note d = t [THEN conjunct2, THEN conjunct2, THEN conjunct2, rule_format]
  have nz: "LEARNING_RATE \<noteq> 0" by (simp add: LEARNING_RATE_def)
  from b [of 24] b [of 25] b [of 26] b [of 29] d [OF nz] show ?thesis
    by (simp add: LEARNING_RATE_def)
qed
lemma no_improvement_state:
  "\<forall>i<n. acc i \<le> 0 \<Longrightarrow>
     max_accuracy (training_loop acc n r) = 0
     \<and> run_dir (training_loop acc n r) = Map.empty
     \<and> saved_at (training_loop acc n r) = []"
proof (induction n)
  case 0
  show ?case by (simp add: training_loop_0 init_orchestrator_def)
next
  case (Suc n)
  then have "max_accuracy (training_loop acc n r) = 0
     \<and> run_dir (training_loop acc n r) = Map.empty
     \<and> saved_at (training_loop acc n r) = []" by simp
  moreover from Suc.prems have "acc n \<le> 0" by simp
  ultimately show ?case by (simp add: max_accuracy_Suc run_dir_Suc saved_at_Suc)
qed

text \<open>
  Claim C10. When no epoch's validation accuracy exceeds the initial best of 0 (in
  particular when there is no epoch), \<open>torch.save\<close> is never executed, the run
  directory stays empty, and loading \<open>best_model.pth\<close> for the final test raises; the
  exception is the outcome of the run.
\<close>

theorem no_checkpoint_load_fails:
  assumes "\<forall>i<num_epochs. acc i \<le> 0"
  shows "saved_at (training_loop acc num_epochs r) = []
       \<and> run_dir (training_loop acc num_epochs r) = Map.empty
       \<and> train_and_test acc num_epochs r = Inl FileNotFoundError"
  using no_improvement_state [OF assms, of r]
  by (simp add: train_and_test_def torch_load_def)

theorem no_checkpoint_load_fails_witness:
  "train_and_test (acc_of_list []) 0 LEARNING_RATE = Inl FileNotFoundError
   \<and> run_dir (training_loop (acc_of_list []) 0 LEARNING_RATE) = Map.empty
   \<and> acc_of_list [0, 0, 0] 0 = 0 \<and> acc_of_list [0, 0, 0] 1 = 0 \<and> acc_of_list [0, 0, 0] 2 = 0
   \<and> saved_at (training_loop (acc_of_list [0, 0, 0]) 3 LEARNING_RATE) = []
   \<and> run_dir (training_loop (acc_of_list [0, 0, 0]) 3 LEARNING_RATE) = Map.empty
   \<and> train_and_test (acc_of_list [0, 0, 0]) 3 LEARNING_RATE = Inl FileNotFoundError"
proof -
  have h0: "\<forall>i<0. acc_of_list [] i \<le> 0" by simp
  have h3: "\<forall>i<3. acc_of_list [0, 0, 0] i \<le> 0" by (simp add: acc_of_list_def nth_Cons')
  have e: "acc_of_list [0, 0, 0] 0 = 0 \<and> acc_of_list [0, 0, 0] 1 = 0 \<and> acc_of_list [0, 0, 0] 2 = 0"
    by (simp add: acc_of_list_def)
  from no_checkpoint_load_fails [OF h0, of LEARNING_RATE] no_checkpoint_load_fails [OF h3, of LEARNING_RATE] e
  show ?thesis by simp
qed

section \<open>Properties of the compatibility check\<close>

lemma check_img_shape_result:
  assumes "check_img_shape mc rc strict (pre, post) = Inr (pre', post')"
  shows "filter is_ScaleToModel pre' = filter is_ScaleToModel pre
       \<and> filter is_ScaleToTest pre' = filter is_ScaleToTest pre
       \<and> filter is_ScaleToModel post' = filter is_ScaleToModel post
       \<and> filter is_ScaleToTest post' = filter is_ScaleToTest post"
  using assms
  by (auto simp: check_img_shape_def is_ScaleToModel_def is_ScaleToTest_def
      split: prod.splits if_splits)

lemma check_model_compatibility_Inr:
  assumes "check_model_compatibility mc rc model strict = Inr (pre, post, rc')"
  obtains pre1 post1 where
    "check_value_range mc rc strict ([], []) = Inr (pre1, post1)"
    "check_img_shape mc rc strict (pre1, post1) = Inr (pre, post)"
  using assms
  by (auto simp: check_model_compatibility_def bind_err_def split: sum.splits)

lemma check_model_compatibility_Inl:
  assumes "check_model_compatibility mc rc model strict = Inl ValueRangesDiffer"
  shows "check_value_range mc rc strict ([], []) = Inl ValueRangesDiffer"
  using assms
  by (auto simp: check_model_compatibility_def bind_err_def check_actions_def check_img_shape_def
      check_frames_def Let_def
      split: sum.splits if_splits prod.splits option.splits)

text \<open>
  Claim C9. When the value ranges of model and run differ, \<open>check_model_compatibility\<close>
  raises in strict mode; otherwise its value-range step appends one \<open>ScaleToModel\<close> to
  the preprocessing and one \<open>ScaleToTest\<close> to the postprocessing, and these are the only
  such transforms in the sequences the function returns. When the ranges are equal the
  step appends nothing, the function does not raise for this field, and the returned
  sequences hold neither transform.
\<close>

theorem value_range_compatibility:
  "(tensor_value_range mc \<noteq> tensor_value_range rc \<and> strict \<longrightarrow>
      check_model_compatibility mc rc model strict = Inl ValueRangesDiffer)
   \<and> (tensor_value_range mc \<noteq> tensor_value_range rc \<and> \<not> strict \<longrightarrow>
      check_value_range mc rc strict (pre0, post0)
        = Inr (pre0 @ [ScaleToModel (tensor_value_range mc) (tensor_value_range rc)],
               post0 @ [ScaleToTest (tensor_value_range mc) (tensor_value_range rc)])
      \<and> check_model_compatibility mc rc model strict \<noteq> Inl ValueRangesDiffer
      \<and> (\<forall>pre post rc'. check_model_compatibility mc rc model strict = Inr (pre, post, rc') \<longrightarrow>
            filter is_ScaleToModel pre = [ScaleToModel (tensor_value_range mc) (tensor_value_range rc)]
            \<and> filter is_ScaleToTest post = [ScaleToTest (tensor_value_range mc) (tensor_value_range rc)]
            \<and> filter is_ScaleToTest pre = [] \<and> filter is_ScaleToModel post = []))
   \<and> (tensor_value_range mc = tensor_value_range rc \<longrightarrow>
      check_value_range mc rc strict (pre0, post0) = Inr (pre0, post0)
      \<and> check_model_compatibility mc rc model strict \<noteq> Inl ValueRangesDiffer
      \<and> (\<forall>pre post rc'. check_model_compatibility mc rc model strict = Inr (pre, post, rc') \<longrightarrow>
            filter is_ScaleToModel pre = [] \<and> filter is_ScaleToTest post = []
            \<and> filter is_ScaleToTest pre = [] \<and> filter is_ScaleToModel post = []))"
proof (intro conjI impI allI)
  assume "tensor_value_range mc \<noteq> tensor_value_range rc \<and> strict"
  then show "check_model_compatibility mc rc model strict = Inl ValueRangesDiffer"
    by (simp add: check_model_compatibility_def check_value_range_def bind_err_def Let_def)
next
  assume "tensor_value_range mc \<noteq> tensor_value_range rc \<and> \<not> strict"
  then show "check_value_range mc rc strict (pre0, post0)
        = Inr (pre0 @ [ScaleToModel (tensor_value_range mc) (tensor_value_range rc)],
               post0 @ [ScaleToTest (tensor_value_range mc) (tensor_value_range rc)])"
    by (simp add: check_value_range_def Let_def)
next
  assume "tensor_value_range mc \<noteq> tensor_value_range rc \<and> \<not> strict"
  then have "check_value_range mc rc strict ([], []) \<noteq> Inl ValueRangesDiffer"
    by (simp add: check_value_range_def Let_def)
  then show "check_model_compatibility mc rc model strict \<noteq> Inl ValueRangesDiffer"
    using check_model_compatibility_Inl by blast
next
  fix pre post rc'
  assume d: "tensor_value_range mc \<noteq> tensor_value_range rc \<and> \<not> strict"
    and r: "check_model_compatibility mc rc model strict = Inr (pre, post, rc')"
  from r obtain pre1 post1 where
    v: "check_value_range mc rc strict ([], []) = Inr (pre1, post1)"
    and i: "check_img_shape mc rc strict (pre1, post1) = Inr (pre, post)"
    by (rule check_model_compatibility_Inr)
  from d v have p: "pre1 = [ScaleToModel (tensor_value_range mc) (tensor_value_range rc)]"
    "post1 = [ScaleToTest (tensor_value_range mc) (tensor_value_range rc)]"
    by (simp_all add: check_value_range_def Let_def)
  from check_img_shape_result [OF i] p
  show "filter is_ScaleToModel pre = [ScaleToModel (tensor_value_range mc) (tensor_value_range rc)]"
    "filter is_ScaleToTest post = [ScaleToTest (tensor_value_range mc) (tensor_value_range rc)]"
    "filter is_ScaleToTest pre = []" "filter is_ScaleToModel post = []"
    by (simp_all add: is_ScaleToModel_def is_ScaleToTest_def)
next
  assume "tensor_value_range mc = tensor_value_range rc"
  then show "check_value_range mc rc strict (pre0, post0) = Inr (pre0, post0)"
    by (simp add: check_value_range_def Let_def)
next
  assume "tensor_value_range mc = tensor_value_range rc"
  then have "check_value_range mc rc strict ([], []) \<noteq> Inl ValueRangesDiffer"
    by (simp add: check_value_range_def Let_def)
  then show "check_model_compatibility mc rc model strict \<noteq> Inl ValueRangesDiffer"
    using check_model_compatibility_Inl by blast
next
  fix pre post rc'
  assume d: "tensor_value_range mc = tensor_value_range rc"
    and r: "check_model_compatibility mc rc model strict = Inr (pre, post, rc')"
  from r obtain pre1 post1 where
    v: "check_value_range mc rc strict ([], []) = Inr (pre1, post1)"
    and i: "check_img_shape mc rc strict (pre1, post1) = Inr (pre, post)"
    by (rule check_model_compatibility_Inr)
  from d v have p: "pre1 = []" "post1 = []"
    by (simp_all add: check_value_range_def Let_def)
  from check_img_shape_result [OF i] p
  show "filter is_ScaleToModel pre = []" "filter is_ScaleToTest post = []"
    "filter is_ScaleToTest pre = []" "filter is_ScaleToModel post = []"
    by simp_all
qed

theorem value_range_compatibility_witness:
  "check_model_compatibility example_model_config example_run_config example_model True
     = Inl ValueRangesDiffer
   \<and> check_model_compatibility example_model_config example_run_config example_model False
     = Inr ([ScaleToModel (- 1, 1) (0, 1)], [ScaleToTest (- 1, 1) (0, 1)],
            example_run_config\<lparr>context_frames := Some 10, pred_frames := Some 10\<rparr>)
   \<and> check_model_compatibility example_model_config example_model_config example_model True
     = Inr ([], [], example_model_config)"
proof -
  have d: "tensor_value_range example_model_config \<noteq> tensor_value_range example_run_config"
    by (simp add: example_model_config_def example_run_config_def)
  note t1 = value_range_compatibility [of example_model_config example_run_config True example_model "[]" "[]"]
  from t1 d have a: "check_model_compatibility example_model_config example_run_config example_model True
     = Inl ValueRangesDiffer" by simp
  have b: "check_model_compatibility example_model_config example_run_config example_model False
     = Inr ([ScaleToModel (- 1, 1) (0, 1)], [ScaleToTest (- 1, 1) (0, 1)],
            example_run_config\<lparr>context_frames := Some 10, pred_frames := Some 10\<rparr>)"
    by (simp add: check_model_compatibility_def check_value_range_def check_actions_def Let_def
        check_img_shape_def check_frames_def bind_err_def example_model_config_def
        example_run_config_def example_model_def)
  have c: "check_model_compatibility example_model_config example_model_config example_model True
     = Inr ([], [], example_model_config)"
    by (simp add: check_model_compatibility_def check_value_range_def check_actions_def Let_def
        check_img_shape_def check_frames_def bind_err_def example_model_config_def
        example_model_def)
  from a b c show ?thesis by simp
qed

section \<open>Properties of the dataset and of \<open>main\<close>\<close>

lemma sort_ex1: "sort [''b.png'', ''a.png''] = [''a.png'', ''b.png'']" by code_simp
lemma sort_ex2: "sort [''c.png'', ''b.png''] = [''b.png'', ''c.png'']" by code_simp
lemma cv_ex: "class_values_of [''object_1'', ''Object_21''] = Inr [1, 21]" by code_simp

lemma example_dataset_init: "SynpickDataset_init example_fs (PyStr ''data/images'') (PyStr ''data/masks'')
   (PyList [''object_1'', ''Object_21'']) PyNone PyNone = Inr example_dataset"
  by (simp add: SynpickDataset_init_def example_fs_def os_listdir_def bind_err_def sort_ex1 sort_ex2
      iter_classes_def cv_ex os_path_join_def example_dataset_def Let_def
      del: class_values_of.simps)

lemma example_dataset_getitem: "SynpickDataset_getitem example_fs example_dataset 0 =
   Inr (\<lparr>shape = [3, 1, 2], dtype = Float32, elems = [3, 6, 2, 5, 1, 4]\<rparr>,
        \<lparr>shape = [1, 1, 2], dtype = Float32, elems = [0, 255]\<rparr>)"
  by (simp add: SynpickDataset_getitem_def example_fs_def example_dataset_def getitem_def
      bind_err_def cvtColor_BGR2RGB_def expand_dims_last_def apply_augmentation_def
      to_torch_def transpose_201_def upt_rec)

lemma SynpickDataset_call_data_dir:
  "SynpickDataset_call fs [(''data_dir'', d), (''augmentation'', a)] = Inl TypeError"
  by (simp add: SynpickDataset_call_def bind_kwargs_def SynpickDataset_signature_def bind_err_def)

lemma SynpickDataset_init_no_classes:
  "\<exists>e. SynpickDataset_init fs images_dir masks_dir PyNone a p = Inl e"
  by (simp add: SynpickDataset_init_def bind_err_def iter_classes_def Let_def split: sum.splits)

lemma SynpickDataset_init_no_classes_listed:
  "listdir fs ip \<noteq> None \<Longrightarrow> listdir fs mp \<noteq> None \<Longrightarrow>
     SynpickDataset_init fs (PyStr ip) (PyStr mp) PyNone a p = Inl TypeError"
  by (auto simp: SynpickDataset_init_def bind_err_def iter_classes_def Let_def os_listdir_def
      split: sum.splits option.splits)

lemma SynpickDataset_call_matching:
  "SynpickDataset_call fs [(''images_dir'', idir), (''masks_dir'', mdir), (''augmentation'', a)]
     = SynpickDataset_init fs idir mdir PyNone a PyNone"
  by (simp add: SynpickDataset_call_def bind_kwargs_def SynpickDataset_signature_def bind_err_def)

text \<open>
  Claim C5. Every call of \<open>main\<close> fails before any training step: with a data
  directory argument, the first \<open>SynpickDataset\<close> construction raises \<open>TypeError\<close>,
  because \<open>data_dir\<close> is not a parameter of the constructor (and without an argument
  \<open>args[0]\<close> raises). Called with the constructor's own parameters \<open>images_dir\<close> and
  \<open>masks_dir\<close> and the default \<open>classes=None\<close>, the constructor raises as well; when
  both directories can be listed it is the \<open>TypeError\<close> of iterating over \<open>None\<close>.
\<close>

theorem main_fails_before_training:
  "(args \<noteq> [] \<longrightarrow>
      main fs training_augmentation validation_augmentation acc args
        = \<lparr>outcome = Inl TypeError, trained = []\<rparr>)
   \<and> (\<exists>e. outcome (main fs training_augmentation validation_augmentation acc args) = Inl e)
   \<and> trained (main fs training_augmentation validation_augmentation acc args) = []
   \<and> SynpickDataset_call fs [(''data_dir'', d), (''augmentation'', a)] = Inl TypeError
   \<and> (\<exists>e. SynpickDataset_call fs
              [(''images_dir'', images_dir), (''masks_dir'', masks_dir), (''augmentation'', a)] = Inl e)
   \<and> (listdir fs ip \<noteq> None \<and> listdir fs mp \<noteq> None \<longrightarrow>
        SynpickDataset_call fs
          [(''images_dir'', PyStr ip), (''masks_dir'', PyStr mp), (''augmentation'', a)] = Inl TypeError)"
proof -
  have m: "main fs training_augmentation validation_augmentation acc args
        = (if args = [] then \<lparr>outcome = Inl IndexError, trained = []\<rparr>
           else \<lparr>outcome = Inl TypeError, trained = []\<rparr>)"
    by (cases args) (simp_all add: main_def getitem_def SynpickDataset_call_data_dir)
  have a: "args \<noteq> [] \<longrightarrow>
      main fs training_augmentation validation_augmentation acc args
        = \<lparr>outcome = Inl TypeError, trained = []\<rparr>"
    by (simp add: m)
  have b: "\<exists>e. outcome (main fs training_augmentation validation_augmentation acc args) = Inl e"
    by (simp add: m)
  have c: "trained (main fs training_augmentation validation_augmentation acc args) = []"
    by (simp add: m)
  have e: "\<exists>e. SynpickDataset_call fs
              [(''images_dir'', images_dir), (''masks_dir'', masks_dir), (''augmentation'', a)] = Inl e"
    unfolding SynpickDataset_call_matching by (rule SynpickDataset_init_no_classes)
  have f: "listdir fs ip \<noteq> None \<and> listdir fs mp \<noteq> None \<longrightarrow>
        SynpickDataset_call fs
          [(''images_dir'', PyStr ip), (''masks_dir'', PyStr mp), (''augmentation'', a)] = Inl TypeError"
    unfolding SynpickDataset_call_matching by (simp add: SynpickDataset_init_no_classes_listed)
  from a b c SynpickDataset_call_data_dir [of fs d a] e f show ?thesis by blast
qed

theorem main_fails_before_training_witness:
  "main example_fs identity_augmentation identity_augmentation (acc_of_list [1 / 2]) [''data'']
     = \<lparr>outcome = Inl TypeError, trained = []\<rparr>
   \<and> listdir example_fs ''data/images'' = Some [''b.png'', ''a.png'']
   \<and> listdir example_fs ''data/masks'' = Some [''c.png'', ''b.png'']
   \<and> SynpickDataset_call example_fs
        [(''images_dir'', PyStr ''data/images''), (''masks_dir'', PyStr ''data/masks''),
         (''augmentation'', PyAug identity_augmentation)] = Inl TypeError
   \<and> SynpickDataset_init example_fs (PyStr ''data/images'') (PyStr ''data/masks'')
        (PyList [''object_1'', ''Object_21'']) PyNone PyNone = Inr example_dataset"
proof -
  note t = main_fails_before_training [of "[''data'']" example_fs identity_augmentation
      identity_augmentation "acc_of_list [1 / 2]" PyNone "PyAug identity_augmentation" PyNone PyNone
      "''data/images''" "''data/masks''"]
  have l: "listdir example_fs ''data/images'' = Some [''b.png'', ''a.png'']"
    "listdir example_fs ''data/masks'' = Some [''c.png'', ''b.png'']"
    by (simp_all add: example_fs_def)
  from t l example_dataset_init show ?thesis by simp
qed

lemma row_major_rows:
  "h * w \<le> length e \<Longrightarrow>
     concat (map (\<lambda>i. map (\<lambda>j. e ! (i * w + j)) [0..<w]) [0..<h]) = take (h * w) e"
proof (induction h)
  case 0
  show ?case by simp
next
  case (Suc h)
  then have le: "h * w + w \<le> length e" by (simp add: add.commute)
  then have IH: "concat (map (\<lambda>i. map (\<lambda>j. e ! (i * w + j)) [0..<w]) [0..<h]) = take (h * w) e"
    using Suc.IH by simp
  have row: "map (\<lambda>j. e ! (h * w + j)) [0..<w] = take w (drop (h * w) e)"
    using le by (auto simp: list_eq_iff_nth_eq)
  have "take (Suc h * w) e = take (h * w + w) e" by (simp add: add.commute)
  also have "\<dots> = take (h * w) e @ take w (drop (h * w) e)" by (rule take_add)
  finally show ?case using IH row by simp
qed

lemma transpose_201_single_channel:
  assumes "shape x = [h, w, 1]" and "length (elems x) = h * w"
  shows "transpose_201 x = Inr (x\<lparr>shape := [1, h, w]\<rparr>)"
proof -
  have "concat (map (\<lambda>i. map (\<lambda>j. elems x ! (i * w + j)) [0..<w]) [0..<h]) = elems x"
    using row_major_rows [of h w "elems x"] assms(2) by simp
  with assms(1) show ?thesis by (simp add: transpose_201_def)
qed

lemma to_torch_Inr:
  assumes "to_torch x = Inr t"
  shows "\<exists>s0 s1 s2. shape x = [s0, s1, s2] \<and> shape t = [s2, s0, s1] \<and> dtype t = Float32"
  using assms
  by (auto simp: to_torch_def transpose_201_def bind_err_def split: list.splits sum.splits)

lemma to_torch_single_channel:
  assumes "to_torch x = Inr t" and "shape x = [h, w, 1]" and "length (elems x) = h * w"
  shows "elems t = elems x"
  using assms transpose_201_single_channel [OF assms(2,3)]
  by (auto simp: to_torch_def bind_err_def)

lemma getitem_Inr_nth: "0 \<le> i \<Longrightarrow> i < int (length xs) \<Longrightarrow> getitem xs i = Inr (xs ! nat i)"
  by (simp add: getitem_def)

text \<open>
  Claim C6, as stated, fails. \<open>__getitem__\<close> gives the mask a trailing axis with
  \<open>np.expand_dims\<close> and \<open>to_torch\<close> moves it to the front and converts to float32, so the
  mask tensor has rank 3 and float elements; its values are the pixel values of the mask
  file, which nothing compares with the number of classes. Sample 0 of the example
  dataset has a mask of shape \<open>(1, 1, 2)\<close> holding the value 255.
\<close>

theorem getitem_mask_tensor_counterexample:
  "SynpickDataset_getitem example_fs example_dataset 0 =
     Inr (\<lparr>shape = [3, 1, 2], dtype = Float32, elems = [3, 6, 2, 5, 1, 4]\<rparr>,
          \<lparr>shape = [1, 1, 2], dtype = Float32, elems = [0, 255]\<rparr>)
   \<and> length (shape \<lparr>shape = [1, 1, 2], dtype = Float32, elems = [0, 255]\<rparr>) = 3
   \<and> dtype \<lparr>shape = [1, 1, 2], dtype = Float32, elems = [0, 255]\<rparr> \<noteq> UInt8
   \<and> elems \<lparr>shape = [1, 1, 2], dtype = Float32, elems = [0, 255]\<rparr> ! 1 = 255
   \<and> \<not> (255 :: int) \<le> int NUM_CLASSES - 1"
  using example_dataset_getitem by (simp add: NUM_CLASSES_def)

text \<open>
  Claim C6, amended. Every (image, mask) pair that \<open>__getitem__\<close> returns has a mask
  tensor of rank 3 with float32 elements. Without an augmentation its dimensions are
  \<open>(1, height, width)\<close> for the \<open>(height, width)\<close> of the grayscale mask file read, and
  its elements are the pixel values of that file (for a file holding height times width
  values).
\<close>

theorem getitem_mask_tensor:
  assumes "SynpickDataset_getitem fs self i = Inr (image_t, mask_t)"
  shows "length (shape mask_t) = 3 \<and> dtype mask_t = Float32
       \<and> (augmentation self = PyNone \<longrightarrow>
            (\<exists>mask_path m h w.
               getitem (masks_fps self) i = Inr mask_path
               \<and> imread_gray fs mask_path = Some m \<and> shape m = [h, w]
               \<and> shape mask_t = [1, h, w]
               \<and> (length (elems m) = h * w \<longrightarrow> elems mask_t = elems m)))"
proof -
  from assms obtain image_path img mask_path img' msk' where
    mp: "getitem (masks_fps self) i = Inr mask_path"
    and au: "apply_augmentation (augmentation self) img
               (expand_dims_last (imread_gray fs mask_path)) = Inr (img', msk')"
    and tm: "to_torch msk' = Inr mask_t"
    by (auto simp: SynpickDataset_getitem_def bind_err_def Let_def split: sum.splits prod.splits)
  from to_torch_Inr [OF tm] obtain s0 s1 s2 where
    s: "shape msk' = [s0, s1, s2]" "shape mask_t = [s2, s0, s1]" "dtype mask_t = Float32"
    by blast
  have "\<exists>mask_path m h w.
               getitem (masks_fps self) i = Inr mask_path
               \<and> imread_gray fs mask_path = Some m \<and> shape m = [h, w]
               \<and> shape mask_t = [1, h, w]
               \<and> (length (elems m) = h * w \<longrightarrow> elems mask_t = elems m)"
    if n: "augmentation self = PyNone"
  proof -
    from au n have e: "msk' = expand_dims_last (imread_gray fs mask_path)"
      by (simp add: apply_augmentation_def)
    show ?thesis
    proof (cases "imread_gray fs mask_path")
      case None
      with e s(1) show ?thesis by (simp add: expand_dims_last_def)
    next
      case (Some m)
      with e have m: "shape msk' = shape m @ [1]" "elems msk' = elems m"
        by (simp_all add: expand_dims_last_def)
      from m(1) s(1) have sh: "shape m = [s0, s1]" "s2 = 1" by simp_all
      have "length (elems m) = s0 * s1 \<longrightarrow> elems mask_t = elems m"
        using to_torch_single_channel [OF tm, of s0 s1] s(1) sh(2) m(2) by simp
      with mp Some sh s(2) show ?thesis by simp
    qed
  qed
  with s show ?thesis by simp
qed

theorem getitem_mask_tensor_witness:
  "SynpickDataset_getitem example_fs example_dataset 1 =
     Inr (\<lparr>shape = [3, 1, 2], dtype = Float32, elems = [9, 12, 8, 11, 7, 10]\<rparr>,
          \<lparr>shape = [1, 1, 2], dtype = Float32, elems = [3, 21]\<rparr>)
   \<and> length (shape \<lparr>shape = [1, 1, 2], dtype = Float32, elems = [3, 21]\<rparr>) = 3
   \<and> augmentation example_dataset = PyNone
   \<and> imread_gray example_fs ''data/masks/c.png''
        = Some \<lparr>shape = [1, 2], dtype = UInt8, elems = [3, 21]\<rparr>"
proof -
  have g: "SynpickDataset_getitem example_fs example_dataset 1 =
     Inr (\<lparr>shape = [3, 1, 2], dtype = Float32, elems = [9, 12, 8, 11, 7, 10]\<rparr>,
          \<lparr>shape = [1, 1, 2], dtype = Float32, elems = [3, 21]\<rparr>)"
    by (simp add: SynpickDataset_getitem_def example_fs_def example_dataset_def getitem_def
      bind_err_def cvtColor_BGR2RGB_def expand_dims_last_def apply_augmentation_def
      to_torch_def transpose_201_def upt_rec)
  from getitem_mask_tensor [OF g] g show ?thesis
    by (simp add: example_dataset_def example_fs_def)
qed

text \<open>
  Claim C7. The constructor sorts the image listing and the mask listing separately and
  succeeds whatever the relation between the two (given listable directories and valid
  class names); for every index valid in both, \<open>__getitem__\<close> builds sample \<open>i\<close> from the
  \<open>i\<close>-th sorted image name and the \<open>i\<close>-th sorted mask name, with no comparison of the
  names or of the counts.
\<close>

theorem index_pairing_unchecked:
  assumes "listdir fs images_dir = Some image_listing"
    and "listdir fs masks_dir = Some mask_listing"
    and "class_values_of classes = Inr values"
  shows "\<exists>self.
       SynpickDataset_init fs (PyStr images_dir) (PyStr masks_dir) (PyList classes) aug pre = Inr self
       \<and> image_ids self = sort image_listing \<and> mask_ids self = sort mask_listing
       \<and> SynpickDataset_len self = length image_listing
       \<and> (\<forall>i. 0 \<le> i \<and> i < int (length image_listing) \<and> i < int (length mask_listing) \<longrightarrow>
             SynpickDataset_getitem fs self i =
               bind_err (cvtColor_BGR2RGB
                           (imread_color fs (os_path_join images_dir (sort image_listing ! nat i))))
                 (\<lambda>img.
               bind_err (apply_augmentation aug img
                           (expand_dims_last
                              (imread_gray fs (os_path_join masks_dir (sort mask_listing ! nat i)))))
                 (\<lambda>(img', msk').
               bind_err (to_torch img') (\<lambda>image_t.
               bind_err (to_torch msk') (\<lambda>mask_t. Inr (image_t, mask_t))))))"
proof -
  let ?self = "\<lparr>image_ids = sort image_listing, mask_ids = sort mask_listing,
                 images_fps = map (os_path_join images_dir) (sort image_listing),
                 masks_fps = map (os_path_join masks_dir) (sort mask_listing),
                 class_values = values,
                 augmentation = aug, preprocessing = pre\<rparr>"
  have i: "SynpickDataset_init fs (PyStr images_dir) (PyStr masks_dir) (PyList classes) aug pre
             = Inr ?self"
    using assms
    by (simp add: SynpickDataset_init_def os_listdir_def bind_err_def iter_classes_def Let_def)
  have g: "SynpickDataset_getitem fs ?self i =
               bind_err (cvtColor_BGR2RGB
                           (imread_color fs (os_path_join images_dir (sort image_listing ! nat i))))
                 (\<lambda>img.
               bind_err (apply_augmentation aug img
                           (expand_dims_last
                              (imread_gray fs (os_path_join masks_dir (sort mask_listing ! nat i)))))
                 (\<lambda>(img', msk').
               bind_err (to_torch img') (\<lambda>image_t.
               bind_err (to_torch msk') (\<lambda>mask_t. Inr (image_t, mask_t)))))"
    if "0 \<le> i \<and> i < int (length image_listing) \<and> i < int (length mask_listing)" for i
  proof -
    from that have n: "nat i < length (sort image_listing)" "nat i < length (sort mask_listing)"
      by (auto simp: nat_less_iff)
    from that n(1) have a: "getitem (map (os_path_join images_dir) (sort image_listing)) i
        = Inr (os_path_join images_dir (sort image_listing ! nat i))"
      by (simp add: getitem_Inr_nth)
    from that n(2) have b: "getitem (map (os_path_join masks_dir) (sort mask_listing)) i
        = Inr (os_path_join masks_dir (sort mask_listing ! nat i))"
      by (simp add: getitem_Inr_nth)
    show ?thesis
      by (simp add: SynpickDataset_getitem_def a b bind_err_def Let_def split: sum.splits)
  qed
  from i g show ?thesis by (auto simp: SynpickDataset_len_def)
qed

theorem index_pairing_unchecked_witness:
  "listdir example_fs ''data/images'' = Some [''b.png'', ''a.png'']
   \<and> listdir example_fs ''data/masks'' = Some [''c.png'', ''b.png'']
   \<and> class_values_of [''object_1'', ''Object_21''] = Inr [1, 21]
   \<and> SynpickDataset_init example_fs (PyStr ''data/images'') (PyStr ''data/masks'')
        (PyList [''object_1'', ''Object_21'']) PyNone PyNone = Inr example_dataset
   \<and> images_fps example_dataset ! 0 = ''data/images/a.png''
   \<and> masks_fps example_dataset ! 0 = ''data/masks/b.png''
   \<and> SynpickDataset_getitem example_fs example_dataset 0 =
        Inr (\<lparr>shape = [3, 1, 2], dtype = Float32, elems = [3, 6, 2, 5, 1, 4]\<rparr>,
             \<lparr>shape = [1, 1, 2], dtype = Float32, elems = [0, 255]\<rparr>)
   \<and> SynpickDataset_getitem example_fs example_dataset 0 =
        bind_err (cvtColor_BGR2RGB (imread_color example_fs ''data/images/a.png'')) (\<lambda>img.
        bind_err (apply_augmentation PyNone img
                    (expand_dims_last (imread_gray example_fs ''data/masks/b.png'')))
          (\<lambda>(img', msk').
        bind_err (to_torch img') (\<lambda>image_t.
        bind_err (to_torch msk') (\<lambda>mask_t. Inr (image_t, mask_t)))))"
proof -
  have l: "listdir example_fs ''data/images'' = Some [''b.png'', ''a.png'']"
    "listdir example_fs ''data/masks'' = Some [''c.png'', ''b.png'']"
    by (simp_all add: example_fs_def)
  from index_pairing_unchecked [OF l cv_ex, of PyNone PyNone]
  obtain self where
    i: "SynpickDataset_init example_fs (PyStr ''data/images'') (PyStr ''data/masks'')
          (PyList [''object_1'', ''Object_21'']) PyNone PyNone = Inr self"
    and g: "\<forall>i. 0 \<le> i \<and> i < int (length [''b.png'', ''a.png'']) \<and> i < int (length [''c.png'', ''b.png'']) \<longrightarrow>
             SynpickDataset_getitem example_fs self i =
               bind_err (cvtColor_BGR2RGB
                           (imread_color example_fs (os_path_join ''data/images'' (sort [''b.png'', ''a.png''] ! nat i))))
                 (\<lambda>img.
               bind_err (apply_augmentation PyNone img
                           (expand_dims_last
                              (imread_gray example_fs (os_path_join ''data/masks'' (sort [''c.png'', ''b.png''] ! nat i)))))
                 (\<lambda>(img', msk').
               bind_err (to_torch img') (\<lambda>image_t.
               bind_err (to_torch msk') (\<lambda>mask_t. Inr (image_t, mask_t)))))"
    by blast
  from i example_dataset_init have s: "self = example_dataset" by simp
  from g [rule_format, of 0] have p: "SynpickDataset_getitem example_fs example_dataset 0 =
        bind_err (cvtColor_BGR2RGB (imread_color example_fs ''data/images/a.png'')) (\<lambda>img.
        bind_err (apply_augmentation PyNone img
                    (expand_dims_last (imread_gray example_fs ''data/masks/b.png'')))
          (\<lambda>(img', msk').
        bind_err (to_torch img') (\<lambda>image_t.
        bind_err (to_torch msk') (\<lambda>mask_t. Inr (image_t, mask_t)))))"
    unfolding s sort_ex1 sort_ex2 by (simp add: os_path_join_def)
  have f: "images_fps example_dataset ! 0 = ''data/images/a.png''"
    "masks_fps example_dataset ! 0 = ''data/masks/b.png''"
    by (simp_all add: example_dataset_def)
  from l cv_ex example_dataset_init f example_dataset_getitem p show ?thesis by simp
qed

section \<open>Properties of the segmentation network\<close>

subsection \<open>Single layers and the encoder loop\<close>

lemma apply_DoubleConv:
  assumes "0 < h" and "0 < w" and "\<not> (tr \<and> b * h * w = 1)"
  shows "apply_module tr (DoubleConv_init cin cout) [b, cin, h, w] = Inr [b, cout, h, w]"
  using assms by (auto simp: DoubleConv_init_def bind_err_def)

lemma apply_pool:
  assumes "2 \<le> h" and "2 \<le> w"
  shows "apply_layer tr (MaxPool2d 2 2) [b, c, h, w] = Inr [b, c, h div 2, w div 2]"
proof -
  have "(h - 2) div 2 + 1 = h div 2" "(w - 2) div 2 + 1 = w div 2"
    using assms by presburger+
  with assms show ?thesis by simp
qed

lemma apply_ConvTranspose:
  "apply_layer tr (ConvTranspose2d (c * 2) c 2 2) [b, c * 2, h, w] = Inr [b, c, 2 * h, 2 * w]"
proof -
  have "nat ((int h - 1) * int 2 + int 2) = 2 * h" "nat ((int w - 1) * int 2 + int 2) = 2 * w"
    by (simp_all add: algebra_simps nat_mult_distrib)
  then show ?thesis by simp
qed

lemma apply_final_conv:
  assumes "0 < h" and "0 < w"
  shows "apply_layer tr (Conv2d c k 1 1 0) [b, c, h, w] = Inr [b, k, h, w]"
  using assms by simp

lemma reconcile_to_skip:
  assumes "0 < h" and "0 < w" and "0 < hs" and "0 < ws"
  shows "reconcile [b, c, h, w] [b, c, hs, ws] = Inr [b, c, hs, ws]"
  using assms by (auto simp: reconcile_def)

lemma doubling_Suc: "doubling f (Suc d) = f # doubling (2 * f) d"
proof -
  have "[0..<Suc d] = 0 # map Suc [0..<d]"
    by (simp add: upt_conv_Cons map_Suc_upt del: upt_Suc)
  then show ?thesis by (simp add: doubling_def comp_def del: upt_Suc)
qed

lemma levels_Suc:
  fixes b f H W :: nat
  shows "map (\<lambda>i. [b, f * 2 ^ i, H div 2 ^ i, W div 2 ^ i]) [0..<Suc d]
     = [b, f, H, W] # map (\<lambda>i. [b, (2 * f) * 2 ^ i, (H div 2) div 2 ^ i, (W div 2) div 2 ^ i]) [0..<d]"
proof -
  have "[0..<Suc d] = 0 # map Suc [0..<d]"
    by (simp add: upt_conv_Cons map_Suc_upt del: upt_Suc)
  then show ?thesis by (simp add: comp_def div_mult2_eq del: upt_Suc)
qed

lemma power_two_bound:
  assumes "2 ^ Suc d \<le> (n::nat)"
  shows "2 \<le> n" and "2 ^ d \<le> n div 2"
proof -
  have p: "0 < (2::nat) ^ d" by simp
  from assms have m: "2 * 2 ^ d \<le> n" by simp
  from p m show "2 \<le> n" by linarith
  from m show "2 ^ d \<le> n div 2" by linarith
qed

lemma down_loop_doubling:
  assumes "0 < b" and "2 ^ d \<le> H" and "2 ^ d \<le> W"
  shows "down_loop tr (MaxPool2d 2 2) (build_downs cin (doubling f d)) [b, cin, H, W] skips
           = Inr ([b, (if d = 0 then cin else f * 2 ^ (d - 1)), H div 2 ^ d, W div 2 ^ d],
                  skips @ map (\<lambda>i. [b, f * 2 ^ i, H div 2 ^ i, W div 2 ^ i]) [0..<d])"
  using assms
proof (induction d arbitrary: cin f H W skips)
  case 0
  show ?case by (simp add: doubling_def)
next
  case (Suc d)
  from Suc.prems have H2: "2 \<le> H" "2 \<le> W"
    using power_two_bound(1) by blast+
  from Suc.prems have half: "2 ^ d \<le> H div 2" "2 ^ d \<le> W div 2"
    using power_two_bound(2) by blast+
  from H2 Suc.prems(1) have bn: "\<not> (tr \<and> b * H * W = 1)" by auto
  have dc: "apply_module tr (DoubleConv_init cin f) [b, cin, H, W] = Inr [b, f, H, W]"
    using H2 bn by (intro apply_DoubleConv) simp_all
  have pl: "apply_layer tr (MaxPool2d 2 2) [b, f, H, W] = Inr [b, f, H div 2, W div 2]"
    using H2 by (rule apply_pool)
  have ch: "(if d = 0 then f else 2 * f * 2 ^ (d - 1)) = f * 2 ^ (Suc d - 1)"
    by (cases d) simp_all
  show ?case
    unfolding doubling_Suc build_downs.simps down_loop.simps dc pl bind_err_def sum.case
      Suc.IH [OF Suc.prems(1) half] levels_Suc ch
    by (simp add: div_mult2_eq)
qed

subsection \<open>The decoder loop\<close>

lemma build_ups_length: "length (build_ups fs) = 2 * length fs"
proof -
  have "length (concat (map (\<lambda>feature. [Layer (ConvTranspose2d (feature * 2) feature 2 2),
                               DoubleConv_init (feature * 2) feature]) xs)) = 2 * length xs" for xs
    by (induction xs) simp_all
  from this [of "rev fs"] show ?thesis by (simp add: build_ups_def)
qed

lemma pairs_nth:
  "k < length xs \<Longrightarrow>
     concat (map (\<lambda>a. [g a, h a]) xs) ! (2 * k) = g (xs ! k)
     \<and> concat (map (\<lambda>a. [g a, h a]) xs) ! (2 * k + 1) = h (xs ! k)"
proof (induction xs arbitrary: k)
  case Nil
  then show ?case by simp
next
  case (Cons a xs)
  show ?case
  proof (cases k)
    case 0
    then show ?thesis by simp
  next
    case (Suc j)
    with Cons.prems have "j < length xs" by simp
    from Cons.IH [OF this] Suc show ?thesis by simp
  qed
qed

lemma build_ups_nth:
  assumes "k < length fs"
  shows "build_ups fs ! (2 * k) = Layer (ConvTranspose2d (rev fs ! k * 2) (rev fs ! k) 2 2)"
    and "build_ups fs ! (2 * k + 1) = DoubleConv_init (rev fs ! k * 2) (rev fs ! k)"
  using pairs_nth [of k "rev fs" "\<lambda>feature. Layer (ConvTranspose2d (feature * 2) feature 2 2)"
      "\<lambda>feature. DoubleConv_init (feature * 2) feature"] assms
  by (simp_all add: build_ups_def)

lemma doubling_length: "length (doubling f d) = d"
  by (simp add: doubling_def)

lemma rev_doubling_nth: "k < d \<Longrightarrow> rev (doubling f d) ! k = f * 2 ^ (d - Suc k)"
  by (simp add: rev_nth doubling_def)

lemma getitem_nat: "n < length xs \<Longrightarrow> getitem xs (int n) = Inr (xs ! n)"
  by (simp add: getitem_def)

lemma up_step_stage:
  assumes "i + 1 < length ups_list"
    and "ups_list ! i = Layer (ConvTranspose2d (c * 2) c 2 2)"
    and "ups_list ! (i + 1) = DoubleConv_init (c * 2) c"
    and "i div 2 < length skips"
    and "skips ! (i div 2) = [b, c, hs, ws]"
    and "0 < b" and "0 < h" and "0 < w" and "2 \<le> hs" and "2 \<le> ws"
  shows "up_step tr ups_list skips i ([b, c * 2, h, w], stages)
           = Inr ([b, c, hs, ws],
                  stages @ [([b, c, 2 * h, 2 * w], [b, c, hs, ws], [b, c, hs, ws])])"
proof -
  have g1: "getitem ups_list (int i) = Inr (Layer (ConvTranspose2d (c * 2) c 2 2))"
    using assms(1,2) by (simp add: getitem_nat)
  have g2: "getitem ups_list (int (i + 1)) = Inr (DoubleConv_init (c * 2) c)"
    using getitem_nat [OF assms(1)] assms(3) by (simp only:)
  have g3: "getitem skips (int (i div 2)) = Inr [b, c, hs, ws]"
    using getitem_nat [OF assms(4)] assms(5) by (simp only:)
  have r: "reconcile [b, c, 2 * h, 2 * w] [b, c, hs, ws] = Inr [b, c, hs, ws]"
    using assms(7-10) by (intro reconcile_to_skip) simp_all
  have bn: "\<not> (tr \<and> b * hs * ws = 1)" using assms(6,9,10) by auto
  have dc: "apply_module tr (DoubleConv_init (c * 2) c) [b, c * 2, hs, ws] = Inr [b, c, hs, ws]"
    using assms(9,10) bn by (intro apply_DoubleConv) simp_all
  have up: "apply_module tr (Layer (ConvTranspose2d (c * 2) c 2 2)) [b, c * 2, h, w]
              = Inr [b, c, 2 * h, 2 * w]"
    by (simp only: apply_module.simps apply_ConvTranspose)
  have cat: "torch_cat_dim1 [b, c, hs, ws] [b, c, hs, ws] = Inr [b, c * 2, hs, ws]"
    by simp
  show ?thesis
    by (simp only: up_step_def prod.case Let_def g1 up g3 r cat g2 dc bind_err_def sum.case)
qed

lemma div_power_bound:
  assumes "2 ^ d \<le> (H::nat)" and "m \<le> d"
  shows "2 ^ (d - m) \<le> H div 2 ^ m"
proof -
  have "(2::nat) ^ d = 2 ^ (d - m) * 2 ^ m"
    using assms(2) by (simp add: power_add [symmetric])
  then have "2 ^ (d - m) = (2::nat) ^ d div 2 ^ m" by simp
  also have "\<dots> \<le> H div 2 ^ m" using assms(1) by (rule div_le_mono)
  finally show ?thesis .
qed

lemma div_power_pos:
  assumes "2 ^ d \<le> (H::nat)" and "m \<le> d"
  shows "0 < H div 2 ^ m"
proof -
  have "0 < (2::nat) ^ (d - m)" by simp
  with div_power_bound [OF assms] show ?thesis by linarith
qed

lemma div_power_two:
  assumes "2 ^ d \<le> (H::nat)" and "m < d"
  shows "2 \<le> H div 2 ^ m"
proof -
  from assms(2) have "d - m = Suc (d - Suc m)" by simp
  then have "(2::nat) ^ (d - m) = 2 * 2 ^ (d - Suc m)" by simp
  moreover have "0 < (2::nat) ^ (d - Suc m)" by simp
  ultimately have "2 \<le> (2::nat) ^ (d - m)" by linarith
  with div_power_bound [OF assms(1), of m] assms(2) show ?thesis by simp
qed

lemma up_loop_doubling:
  assumes "0 < b" and "2 ^ d \<le> H" and "2 ^ d \<le> W" and "k \<le> d"
  shows "up_loop tr (build_ups (doubling f d))
           (rev (map (\<lambda>i. [b, f * 2 ^ i, H div 2 ^ i, W div 2 ^ i]) [0..<d]))
           (map (\<lambda>j. 2 * j) [k..<d])
           ([b, f * 2 ^ (d - k), H div 2 ^ (d - k), W div 2 ^ (d - k)], stages)
         = Inr ([b, f, H, W],
                stages @ map (\<lambda>j. ([b, f * 2 ^ (d - Suc j), 2 * (H div 2 ^ (d - j)), 2 * (W div 2 ^ (d - j))],
                                     [b, f * 2 ^ (d - Suc j), H div 2 ^ (d - Suc j), W div 2 ^ (d - Suc j)],
                                     [b, f * 2 ^ (d - Suc j), H div 2 ^ (d - Suc j), W div 2 ^ (d - Suc j)]))
                               [k..<d])"
  using assms(4)
proof (induction "d - k" arbitrary: k stages)
  case 0
  then have "k = d" by simp
  then show ?case by simp
next
  case (Suc n)
  then have kd: "k < d" by simp
  let ?ups = "build_ups (doubling f d)"
  let ?skips = "rev (map (\<lambda>i. [b, f * 2 ^ i, H div 2 ^ i, W div 2 ^ i]) [0..<d])"
  let ?c = "f * 2 ^ (d - Suc k)"
  let ?hs = "H div 2 ^ (d - Suc k)"
  let ?ws = "W div 2 ^ (d - Suc k)"
  have dk: "d - k = Suc (d - Suc k)" using kd by simp
  have ch: "f * 2 ^ (d - k) = ?c * 2" by (simp add: dk)
  have a1: "2 * k + 1 < length ?ups" using kd by (simp add: build_ups_length doubling_length)
  have kl: "k < length (doubling f d)" using kd by (simp add: doubling_length)
  have a2: "?ups ! (2 * k) = Layer (ConvTranspose2d (?c * 2) ?c 2 2)"
    using build_ups_nth(1) [OF kl] rev_doubling_nth [OF kd, of f] by simp
  have a3: "?ups ! (2 * k + 1) = DoubleConv_init (?c * 2) ?c"
    using build_ups_nth(2) [OF kl] rev_doubling_nth [OF kd, of f] by simp
  have a4: "(2 * k) div 2 < length ?skips" using kd by simp
  have a5: "?skips ! ((2 * k) div 2) = [b, ?c, ?hs, ?ws]"
    using kd by (simp add: rev_nth)
  have a7: "0 < H div 2 ^ (d - k)" "0 < W div 2 ^ (d - k)"
    using div_power_pos [OF assms(2), of "d - k"] div_power_pos [OF assms(3), of "d - k"] by simp_all
  have a9: "2 \<le> ?hs" "2 \<le> ?ws"
    using div_power_two [OF assms(2), of "d - Suc k"] div_power_two [OF assms(3), of "d - Suc k"] kd
    by simp_all
  have step: "up_step tr ?ups ?skips (2 * k)
                ([b, f * 2 ^ (d - k), H div 2 ^ (d - k), W div 2 ^ (d - k)], stages)
           = Inr ([b, ?c, ?hs, ?ws],
                  stages @ [([b, ?c, 2 * (H div 2 ^ (d - k)), 2 * (W div 2 ^ (d - k))],
                             [b, ?c, ?hs, ?ws], [b, ?c, ?hs, ?ws])])"
    unfolding ch
    by (rule up_step_stage [OF a1 a2 a3 a4 a5 assms(1) a7 a9])
  have n: "n = d - Suc k" using Suc.hyps(2) by simp
  have sk: "Suc k \<le> d" using kd by simp
  have up: "[k..<d] = k # [Suc k..<d]" using kd by (rule upt_conv_Cons)
  show ?case
    unfolding up list.map up_loop.simps step bind_err_def sum.case
      Suc.hyps(1) [OF n sk]
    by simp
qed

subsection \<open>The whole forward pass\<close>

lemma fresh_unet_init: "UNet_init 3 22 default_features = Inr fresh_unet"
  by (simp add: UNet_init_def default_features_def getitem_def bind_err_def fresh_unet_def)

lemma flat_unet_init: "UNet_init 3 22 [64, 64, 64, 64] = Inr flat_unet"
  by (simp add: UNet_init_def getitem_def bind_err_def flat_unet_def)

lemma default_features_doubling: "default_features = doubling 64 4"
  by (simp add: default_features_def doubling_def upt_rec)

lemma getitem_doubling:
  assumes "0 < d"
  shows "getitem (doubling f d) (- 1) = Inr (f * 2 ^ (d - 1))"
    and "getitem (doubling f d) 0 = Inr f"
proof -
  have l: "length (doubling f d) = d" by (rule doubling_length)
  have n: "nat (int d + - 1) = d - 1" using assms by simp
  have e: "doubling f d ! (d - 1) = f * 2 ^ (d - 1)" using assms by (simp add: doubling_def)
  have "getitem (doubling f d) (- 1) = Inr (doubling f d ! nat (int d + - 1))"
    using assms by (simp add: getitem_def l)
  then show "getitem (doubling f d) (- 1) = Inr (f * 2 ^ (d - 1))"
    by (simp only: n e)
  show "getitem (doubling f d) 0 = Inr f"
    using assms by (simp add: getitem_def l) (simp add: doubling_def)
qed

lemma UNet_init_doubling:
  assumes "0 < d"
  shows "UNet_init in_channels K (doubling f d)
           = Inr \<lparr>downs = build_downs in_channels (doubling f d),
                  ups = build_ups (doubling f d),
                  pool = MaxPool2d 2 2,
                  bottleneck = DoubleConv_init (f * 2 ^ (d - 1)) (f * 2 ^ (d - 1) * 2),
                  final_conv = Conv2d f K 1 1 0,
                  training = True\<rparr>"
  by (simp only: UNet_init_def getitem_doubling [OF assms] bind_err_def sum.case)

lemma forward_stages_doubling:
  assumes "0 < d" and "0 < b" and "2 ^ d \<le> H" and "2 ^ d \<le> W"
    and "\<not> (tr \<and> b * (H div 2 ^ d) * (W div 2 ^ d) = 1)"
    and "UNet_init in_channels K (doubling f d) = Inr net"
  shows "forward_stages (net\<lparr>training := tr\<rparr>) [b, in_channels, H, W]
         = Inr ([b, K, H, W],
                map (\<lambda>j. ([b, f * 2 ^ (d - Suc j), 2 * (H div 2 ^ (d - j)), 2 * (W div 2 ^ (d - j))],
                           [b, f * 2 ^ (d - Suc j), H div 2 ^ (d - Suc j), W div 2 ^ (d - Suc j)],
                           [b, f * 2 ^ (d - Suc j), H div 2 ^ (d - Suc j), W div 2 ^ (d - Suc j)]))
                    [0..<d])"
proof -
  from assms(6) UNet_init_doubling [OF assms(1), of in_channels K f]
  have net: "net = \<lparr>downs = build_downs in_channels (doubling f d),
                  ups = build_ups (doubling f d),
                  pool = MaxPool2d 2 2,
                  bottleneck = DoubleConv_init (f * 2 ^ (d - 1)) (f * 2 ^ (d - 1) * 2),
                  final_conv = Conv2d f K 1 1 0,
                  training = True\<rparr>" by simp
  have dn: "down_loop tr (MaxPool2d 2 2) (build_downs in_channels (doubling f d)) [b, in_channels, H, W] []
           = Inr ([b, f * 2 ^ (d - 1), H div 2 ^ d, W div 2 ^ d],
                  map (\<lambda>i. [b, f * 2 ^ i, H div 2 ^ i, W div 2 ^ i]) [0..<d])"
    using down_loop_doubling [OF assms(2,3,4), of tr in_channels f "[]"] assms(1) by simp
  have pos: "0 < H div 2 ^ d" "0 < W div 2 ^ d"
    using div_power_pos [OF assms(3), of d] div_power_pos [OF assms(4), of d] by simp_all
  have bt: "apply_module tr (DoubleConv_init (f * 2 ^ (d - 1)) (f * 2 ^ (d - 1) * 2))
              [b, f * 2 ^ (d - 1), H div 2 ^ d, W div 2 ^ d]
            = Inr [b, f * 2 ^ (d - 1) * 2, H div 2 ^ d, W div 2 ^ d]"
    using pos assms(5) by (intro apply_DoubleConv) simp_all
  have ch: "f * 2 ^ (d - 1) * 2 = f * 2 ^ (d - 0)"
    using assms(1) by (cases d) simp_all
  have rg: "range_step2 (length (build_ups (doubling f d))) = map (\<lambda>j. 2 * j) [0..<d]"
    by (simp add: range_step2_def build_ups_length doubling_length)
  have up: "up_loop tr (build_ups (doubling f d))
           (rev (map (\<lambda>i. [b, f * 2 ^ i, H div 2 ^ i, W div 2 ^ i]) [0..<d]))
           (map (\<lambda>j. 2 * j) [0..<d])
           ([b, f * 2 ^ (d - 1) * 2, H div 2 ^ d, W div 2 ^ d], [])
         = Inr ([b, f, H, W],
                map (\<lambda>j. ([b, f * 2 ^ (d - Suc j), 2 * (H div 2 ^ (d - j)), 2 * (W div 2 ^ (d - j))],
                                     [b, f * 2 ^ (d - Suc j), H div 2 ^ (d - Suc j), W div 2 ^ (d - Suc j)],
                                     [b, f * 2 ^ (d - Suc j), H div 2 ^ (d - Suc j), W div 2 ^ (d - Suc j)]))
                               [0..<d])"
    using up_loop_doubling [OF assms(2,3,4), of 0 tr f "[]"] unfolding ch by simp
  have HW: "0 < H" "0 < W"
    using div_power_pos [OF assms(3), of 0] div_power_pos [OF assms(4), of 0] by simp_all
  have fin: "apply_layer tr (Conv2d f K 1 1 0) [b, f, H, W] = Inr [b, K, H, W]"
    using HW by (rule apply_final_conv)
  show ?thesis
    unfolding forward_stages_def net
    by (simp only: UNet.simps dn bt rg up fin bind_err_def sum.case prod.case)
qed

lemma all_even_dvd:
  "(\<forall>l<d. even (H div 2 ^ l)) \<Longrightarrow> 2 ^ d dvd (H::nat)"
proof (induction d arbitrary: H)
  case 0
  show ?case by simp
next
  case (Suc d)
  from Suc.prems have e: "even H" by force
  have "\<forall>l<d. even ((H div 2) div 2 ^ l)"
  proof (intro allI impI)
    fix l assume "l < d"
    then have "Suc l < Suc d" by simp
    with Suc.prems have "even (H div 2 ^ Suc l)" by blast
    then show "even ((H div 2) div 2 ^ l)" by (simp add: div_mult2_eq)
  qed
  from Suc.IH [OF this] have "2 ^ d dvd H div 2" .
  then have "2 * 2 ^ d dvd 2 * (H div 2)" by (rule mult_dvd_mono [OF dvd_refl])
  with e show ?case by simp
qed

lemma dvd_level_even:
  assumes "2 ^ d dvd (H::nat)" and "l < d"
  shows "2 * (H div 2 ^ Suc l) = H div 2 ^ l"
proof -
  have "(2::nat) ^ Suc l dvd 2 ^ d" using assms(2) by (intro le_imp_power_dvd) simp
  then have "2 ^ Suc l dvd H" using assms(1) by (rule dvd_trans)
  then obtain q where q: "H = 2 ^ Suc l * q" ..
  then have "H = 2 ^ l * (2 * q)" by simp
  then have "H div 2 ^ l = 2 * q" by simp
  moreover from q have "H div 2 ^ Suc l = q" by simp
  ultimately show ?thesis by simp
qed

lemma stages_resized:
  assumes "\<not> (2 ^ d dvd H \<and> 2 ^ d dvd W)"
  shows "\<exists>st \<in> set (map (\<lambda>j. ([b, f * 2 ^ (d - Suc j), 2 * (H div 2 ^ (d - j)), 2 * (W div 2 ^ (d - j))],
                           [b, f * 2 ^ (d - Suc j), H div 2 ^ (d - Suc j), W div 2 ^ (d - Suc j)],
                           [b, f * 2 ^ (d - Suc j), H div 2 ^ (d - Suc j), W div 2 ^ (d - Suc j)]))
                    [0..<d]). resized st"
proof -
  from assms all_even_dvd [of d H] all_even_dvd [of d W]
  obtain l where l: "l < d" "odd (H div 2 ^ l) \<or> odd (W div 2 ^ l)" by blast
  define j where "j = d - Suc l"
  from l(1) have j: "j < d" "d - Suc j = l" "d - j = Suc l" by (simp_all add: j_def)
  let ?F = "\<lambda>j. ([b, f * 2 ^ (d - Suc j), 2 * (H div 2 ^ (d - j)), 2 * (W div 2 ^ (d - j))],
                           [b, f * 2 ^ (d - Suc j), H div 2 ^ (d - Suc j), W div 2 ^ (d - Suc j)],
                           [b, f * 2 ^ (d - Suc j), H div 2 ^ (d - Suc j), W div 2 ^ (d - Suc j)])"
  have "2 * (H div 2 ^ Suc l) \<noteq> H div 2 ^ l \<or> 2 * (W div 2 ^ Suc l) \<noteq> W div 2 ^ l"
    using l(2) by (metis dvd_triv_left)
  then have r: "resized (?F j)"
    unfolding j(2,3) by (auto simp: resized_def)
  have "j \<in> {0..<d}" using j(1) by simp
  then have "?F j \<in> ?F ` {0..<d}" by (rule imageI [where f = ?F])
  then have m: "?F j \<in> set (map ?F [0..<d])" by (simp only: set_map set_upt)
  from m r show ?thesis by (rule bexI [rotated])
qed

lemma stages_not_resized:
  assumes "2 ^ d dvd H" and "2 ^ d dvd W"
  shows "\<forall>st \<in> set (map (\<lambda>j. ([b, f * 2 ^ (d - Suc j), 2 * (H div 2 ^ (d - j)), 2 * (W div 2 ^ (d - j))],
                           [b, f * 2 ^ (d - Suc j), H div 2 ^ (d - Suc j), W div 2 ^ (d - Suc j)],
                           [b, f * 2 ^ (d - Suc j), H div 2 ^ (d - Suc j), W div 2 ^ (d - Suc j)]))
                    [0..<d]). \<not> resized st"
proof -
  have "2 * (H div 2 ^ (d - j)) = H div 2 ^ (d - Suc j) \<and> 2 * (W div 2 ^ (d - j)) = W div 2 ^ (d - Suc j)"
    if "j < d" for j
  proof -
    from that have e: "d - j = Suc (d - Suc j)" and l: "d - Suc j < d" by simp_all
    show ?thesis
      unfolding e using dvd_level_even [OF assms(1) l] dvd_level_even [OF assms(2) l] by simp
  qed
  then show ?thesis by (auto simp: resized_def)
qed

lemma stages_reconciled:
  assumes "0 < b" and "2 ^ d \<le> H" and "2 ^ d \<le> W"
  shows "\<forall>st \<in> set (map (\<lambda>j. ([b, f * 2 ^ (d - Suc j), 2 * (H div 2 ^ (d - j)), 2 * (W div 2 ^ (d - j))],
                           [b, f * 2 ^ (d - Suc j), H div 2 ^ (d - Suc j), W div 2 ^ (d - Suc j)],
                           [b, f * 2 ^ (d - Suc j), H div 2 ^ (d - Suc j), W div 2 ^ (d - Suc j)]))
                    [0..<d]).
           case st of (upsampled, skip_connection, reconciled) \<Rightarrow>
             spatial reconciled = spatial skip_connection
             \<and> reconcile upsampled skip_connection = Inr reconciled
             \<and> (upsampled \<noteq> skip_connection \<longrightarrow>
                  TF_resize upsampled (spatial skip_connection) = Inr reconciled)"
proof -
  have "reconcile [b, f * 2 ^ (d - Suc j), 2 * (H div 2 ^ (d - j)), 2 * (W div 2 ^ (d - j))]
          [b, f * 2 ^ (d - Suc j), H div 2 ^ (d - Suc j), W div 2 ^ (d - Suc j)]
        = Inr [b, f * 2 ^ (d - Suc j), H div 2 ^ (d - Suc j), W div 2 ^ (d - Suc j)]
      \<and> ([b, f * 2 ^ (d - Suc j), 2 * (H div 2 ^ (d - j)), 2 * (W div 2 ^ (d - j))]
            \<noteq> [b, f * 2 ^ (d - Suc j), H div 2 ^ (d - Suc j), W div 2 ^ (d - Suc j)] \<longrightarrow>
          TF_resize [b, f * 2 ^ (d - Suc j), 2 * (H div 2 ^ (d - j)), 2 * (W div 2 ^ (d - j))]
            (spatial [b, f * 2 ^ (d - Suc j), H div 2 ^ (d - Suc j), W div 2 ^ (d - Suc j)])
          = Inr [b, f * 2 ^ (d - Suc j), H div 2 ^ (d - Suc j), W div 2 ^ (d - Suc j)])"
    if "j < d" for j
  proof -
    have "0 < H div 2 ^ (d - j)" "0 < W div 2 ^ (d - j)"
      using div_power_pos [OF assms(2), of "d - j"] div_power_pos [OF assms(3), of "d - j"]
      by simp_all
    moreover have "0 < H div 2 ^ (d - Suc j)" "0 < W div 2 ^ (d - Suc j)"
      using div_power_pos [OF assms(2), of "d - Suc j"] div_power_pos [OF assms(3), of "d - Suc j"]
      by simp_all
    ultimately have r: "reconcile [b, f * 2 ^ (d - Suc j), 2 * (H div 2 ^ (d - j)), 2 * (W div 2 ^ (d - j))]
          [b, f * 2 ^ (d - Suc j), H div 2 ^ (d - Suc j), W div 2 ^ (d - Suc j)]
        = Inr [b, f * 2 ^ (d - Suc j), H div 2 ^ (d - Suc j), W div 2 ^ (d - Suc j)]"
      by (intro reconcile_to_skip) simp_all
    then have "[b, f * 2 ^ (d - Suc j), 2 * (H div 2 ^ (d - j)), 2 * (W div 2 ^ (d - j))]
            \<noteq> [b, f * 2 ^ (d - Suc j), H div 2 ^ (d - Suc j), W div 2 ^ (d - Suc j)] \<longrightarrow>
          TF_resize [b, f * 2 ^ (d - Suc j), 2 * (H div 2 ^ (d - j)), 2 * (W div 2 ^ (d - j))]
            (spatial [b, f * 2 ^ (d - Suc j), H div 2 ^ (d - Suc j), W div 2 ^ (d - Suc j)])
          = Inr [b, f * 2 ^ (d - Suc j), H div 2 ^ (d - Suc j), W div 2 ^ (d - Suc j)]"
      unfolding reconcile_def spatial_def by (simp split: if_splits)
    with r show ?thesis by blast
  qed
  then show ?thesis by (simp add: spatial_def)
qed

text \<open>
  Claim C1, as stated, fails for some networks of depth 4 and some inputs whose size is
  not divisible by 16. A 15 by 15 input reaches the fourth pooling layer with height and
  width 1, where \<open>MaxPool2d\<close> raises (in training mode \<open>BatchNorm2d\<close> raises just
  before, on a single value per channel). A network whose four feature widths are equal
  raises in the second decoder stage, whose transposed convolution expects twice the
  channels it gets.
\<close>

theorem forward_shape_reconciled_counterexample:
  "UNet_init 3 22 default_features = Inr fresh_unet
   \<and> forward (eval_mode fresh_unet) [1, 3, 15, 15] = Inl RuntimeError
   \<and> forward fresh_unet [1, 3, 15, 15] = Inl ValueError
   \<and> UNet_init 3 22 [64, 64, 64, 64] = Inr flat_unet
   \<and> forward (eval_mode flat_unet) [1, 3, 93, 124] = Inl RuntimeError"
proof -
  have a: "forward (eval_mode fresh_unet) [1, 3, 15, 15] = Inl RuntimeError"
    by (simp add: forward_def forward_stages_def eval_mode_def fresh_unet_def default_features_def
        DoubleConv_init_def bind_err_def)
  have b: "forward fresh_unet [1, 3, 15, 15] = Inl ValueError"
    by (simp add: forward_def forward_stages_def fresh_unet_def default_features_def
        DoubleConv_init_def bind_err_def)
  have c: "forward (eval_mode flat_unet) [1, 3, 93, 124] = Inl RuntimeError"
    by (simp add: forward_def forward_stages_def eval_mode_def flat_unet_def
        DoubleConv_init_def bind_err_def build_ups_def range_step2_def upt_rec up_step_def
        getitem_def reconcile_def)
  from a b c fresh_unet_init flat_unet_init show ?thesis by simp
qed

text \<open>
  Claim C1, amended. For every UNet of depth 4 whose feature widths double from level to
  level (\<open>[f, 2f, 4f, 8f]\<close>, as the default \<open>[64, 128, 256, 512]\<close>), and every
  non-empty input batch with height and width at least 16 and not both divisible by 16
  (in training mode with more than one value per channel at the bottleneck), each of
  the four decoder stages reconciles the upsampled tensor to exactly the spatial
  dimensions of its skip connection, at least one stage does so by resizing, and the
  output has shape \<open>(b, K, H, W)\<close>.
\<close>

theorem forward_shape_reconciled:
  assumes "0 < f" and "0 < in_channels" and "0 < K" and "0 < b"
    and "16 \<le> H" and "16 \<le> W" and "\<not> (16 dvd H \<and> 16 dvd W)"
    and "\<not> (tr \<and> b * (H div 16) * (W div 16) = 1)"
    and "UNet_init in_channels K [f, 2 * f, 4 * f, 8 * f] = Inr net"
  shows "forward (net\<lparr>training := tr\<rparr>) [b, in_channels, H, W] = Inr [b, K, H, W]
       \<and> (\<exists>stages.
            forward_stages (net\<lparr>training := tr\<rparr>) [b, in_channels, H, W] = Inr ([b, K, H, W], stages)
            \<and> length stages = 4
            \<and> (\<forall>st \<in> set stages.
                  case st of (upsampled, skip_connection, reconciled) \<Rightarrow>
                    spatial reconciled = spatial skip_connection
                    \<and> reconcile upsampled skip_connection = Inr reconciled
                    \<and> (upsampled \<noteq> skip_connection \<longrightarrow>
                         TF_resize upsampled (spatial skip_connection) = Inr reconciled))
            \<and> (\<exists>st \<in> set stages. resized st))"
proof -
  have fs: "[f, 2 * f, 4 * f, 8 * f] = doubling f 4"
    by (simp add: doubling_def upt_rec)
  have p: "(2::nat) ^ 4 = 16" by simp
  note init = assms(9) [unfolded fs]
  have H: "2 ^ 4 \<le> H" "2 ^ 4 \<le> W" using assms(5,6) by simp_all
  have bn: "\<not> (tr \<and> b * (H div 2 ^ 4) * (W div 2 ^ 4) = 1)" using assms(8) by simp
  have nd: "\<not> (2 ^ 4 dvd H \<and> 2 ^ 4 dvd W)" using assms(7) by simp
  let ?stages = "map (\<lambda>j. ([b, f * 2 ^ (4 - Suc j), 2 * (H div 2 ^ (4 - j)), 2 * (W div 2 ^ (4 - j))],
                           [b, f * 2 ^ (4 - Suc j), H div 2 ^ (4 - Suc j), W div 2 ^ (4 - Suc j)],
                           [b, f * 2 ^ (4 - Suc j), H div 2 ^ (4 - Suc j), W div 2 ^ (4 - Suc j)]))
                    [0..<4]"
  have st: "forward_stages (net\<lparr>training := tr\<rparr>) [b, in_channels, H, W] = Inr ([b, K, H, W], ?stages)"
    by (rule forward_stages_doubling [OF _ assms(4) H bn init]) simp
  have fw: "forward (net\<lparr>training := tr\<rparr>) [b, in_channels, H, W] = Inr [b, K, H, W]"
    by (simp only: forward_def st bind_err_def sum.case prod.case)
  have len: "length ?stages = 4" by simp
  from fw st len stages_reconciled [OF assms(4) H, of f] stages_resized [OF nd, of b f]
  show ?thesis by blast
qed

theorem forward_shape_reconciled_witness:
  "UNet_init 3 22 [64, 2 * 64, 4 * 64, 8 * 64] = Inr fresh_unet
   \<and> \<not> (16 dvd (93::nat) \<and> 16 dvd (124::nat))
   \<and> forward fresh_unet [1, 3, 93, 124] = Inr [1, 22, 93, 124]
   \<and> (\<exists>stages. forward_stages fresh_unet [1, 3, 93, 124] = Inr ([1, 22, 93, 124], stages)
                \<and> length stages = 4)
   \<and> forward_stages fresh_unet [1, 3, 93, 124] =
        Inr ([1, 22, 93, 124],
             [([1, 512, 10, 14], [1, 512, 11, 15], [1, 512, 11, 15]),
              ([1, 256, 22, 30], [1, 256, 23, 31], [1, 256, 23, 31]),
              ([1, 128, 46, 62], [1, 128, 46, 62], [1, 128, 46, 62]),
              ([1, 64, 92, 124], [1, 64, 93, 124], [1, 64, 93, 124])])"
proof -
  have s: "forward_stages fresh_unet [1, 3, 93, 124] =
        Inr ([1, 22, 93, 124],
             [([1, 512, 10, 14], [1, 512, 11, 15], [1, 512, 11, 15]),
              ([1, 256, 22, 30], [1, 256, 23, 31], [1, 256, 23, 31]),
              ([1, 128, 46, 62], [1, 128, 46, 62], [1, 128, 46, 62]),
              ([1, 64, 92, 124], [1, 64, 93, 124], [1, 64, 93, 124])])"
    by (simp add: forward_stages_def fresh_unet_def default_features_def
        DoubleConv_init_def bind_err_def build_ups_def range_step2_def upt_rec up_step_def
        getitem_def reconcile_def)
  have i: "UNet_init 3 22 [64, 2 * 64, 4 * 64, 8 * 64] = Inr fresh_unet"
    using fresh_unet_init by (simp add: default_features_def)
  have t: "fresh_unet\<lparr>training := True\<rparr> = fresh_unet" by (simp add: fresh_unet_def)
  have n: "\<not> (16 dvd (93::nat) \<and> 16 dvd (124::nat))" by simp
  have bn: "\<not> (True \<and> 1 * (93 div 16) * (124 div 16) = (1::nat))" by simp
  from forward_shape_reconciled [OF _ _ _ _ _ _ n bn i, unfolded t] i n s
  show ?thesis by auto
qed

text \<open>
  Claim C4, as stated, fails at the edges of its range. A freshly constructed network is
  in training mode, and on a single 16 by 16 image its bottleneck sees one value per
  channel, for which \<open>BatchNorm2d\<close> raises; an input of height and width 0 (divisible by
  every power of two) is rejected by the first convolution; and a network whose feature
  widths do not double raises in its decoder.
\<close>

theorem forward_shape_divisible_counterexample:
  "UNet_init 3 22 default_features = Inr fresh_unet
   \<and> (2::nat) ^ length default_features dvd 16
   \<and> forward fresh_unet [1, 3, 16, 16] = Inl ValueError
   \<and> (2::nat) ^ length default_features dvd 0
   \<and> forward (eval_mode fresh_unet) [1, 3, 0, 0] = Inl RuntimeError
   \<and> UNet_init 3 22 [64, 64, 64, 64] = Inr flat_unet
   \<and> (2::nat) ^ length [64, 64, 64, 64 :: nat] dvd 256
   \<and> forward (eval_mode flat_unet) [1, 3, 256, 256] = Inl RuntimeError"
proof -
  have a: "forward fresh_unet [1, 3, 16, 16] = Inl ValueError"
    by (simp add: forward_def forward_stages_def fresh_unet_def default_features_def
        DoubleConv_init_def bind_err_def)
  have b: "forward (eval_mode fresh_unet) [1, 3, 0, 0] = Inl RuntimeError"
    by (simp add: forward_def forward_stages_def eval_mode_def fresh_unet_def default_features_def
        DoubleConv_init_def bind_err_def)
  have c: "forward (eval_mode flat_unet) [1, 3, 256, 256] = Inl RuntimeError"
    by (simp add: forward_def forward_stages_def eval_mode_def flat_unet_def
        DoubleConv_init_def bind_err_def build_ups_def range_step2_def upt_rec up_step_def
        getitem_def reconcile_def)
  have d: "(2::nat) ^ length default_features dvd 16" "(2::nat) ^ length [64, 64, 64, 64 :: nat] dvd 256"
    by (simp_all add: default_features_def)
  from a b c d fresh_unet_init flat_unet_init show ?thesis by simp
qed

text \<open>
  Claim C4, amended. For every UNet whose feature widths double from level to level
  (depth \<open>d\<close> at least 1), and every non-empty input batch whose height and width are
  positive multiples of \<open>2 ^ d\<close> (in training mode with more than one value per channel
  at the bottleneck), the forward pass returns shape \<open>(b, K, H, W)\<close>, and no decoder
  stage needs to resize. In particular the freshly constructed network with widths
  \<open>[64, 128, 256, 512]\<close> and 22 classes maps \<open>(1, 3, 256, 256)\<close> to
  \<open>(1, 22, 256, 256)\<close>.
\<close>

theorem forward_shape_divisible:
  assumes "0 < d" and "0 < f" and "0 < in_channels" and "0 < K" and "0 < b"
    and "0 < H" and "0 < W" and "2 ^ d dvd H" and "2 ^ d dvd W"
    and "\<not> (tr \<and> b * (H div 2 ^ d) * (W div 2 ^ d) = 1)"
    and "UNet_init in_channels K (doubling f d) = Inr net"
  shows "forward (net\<lparr>training := tr\<rparr>) [b, in_channels, H, W] = Inr [b, K, H, W]
       \<and> (\<exists>stages.
            forward_stages (net\<lparr>training := tr\<rparr>) [b, in_channels, H, W] = Inr ([b, K, H, W], stages)
            \<and> length stages = d
            \<and> (\<forall>st \<in> set stages. \<not> resized st))"
proof -
  have H: "2 ^ d \<le> H" "2 ^ d \<le> W"
    using assms(6-9) by (simp_all add: dvd_imp_le)
  let ?stages = "map (\<lambda>j. ([b, f * 2 ^ (d - Suc j), 2 * (H div 2 ^ (d - j)), 2 * (W div 2 ^ (d - j))],
                           [b, f * 2 ^ (d - Suc j), H div 2 ^ (d - Suc j), W div 2 ^ (d - Suc j)],
                           [b, f * 2 ^ (d - Suc j), H div 2 ^ (d - Suc j), W div 2 ^ (d - Suc j)]))
                    [0..<d]"
  have st: "forward_stages (net\<lparr>training := tr\<rparr>) [b, in_channels, H, W] = Inr ([b, K, H, W], ?stages)"
    by (rule forward_stages_doubling [OF assms(1) assms(5) H assms(10) assms(11)])
  have fw: "forward (net\<lparr>training := tr\<rparr>) [b, in_channels, H, W] = Inr [b, K, H, W]"
    by (simp only: forward_def st bind_err_def sum.case prod.case)
  have len: "length ?stages = d" by simp
  from fw st len stages_not_resized [OF assms(8,9), of b f]
  show ?thesis by blast
qed

theorem forward_shape_divisible_witness:
  "UNet_init 3 22 (doubling 64 4) = Inr fresh_unet
   \<and> doubling 64 4 = [64, 128, 256, 512]
   \<and> (2::nat) ^ 4 dvd 256
   \<and> forward fresh_unet [1, 3, 256, 256] = Inr [1, 22, 256, 256]"
proof -
  have i: "UNet_init 3 22 (doubling 64 4) = Inr fresh_unet"
    using fresh_unet_init by (simp add: default_features_doubling)
  have t: "fresh_unet\<lparr>training := True\<rparr> = fresh_unet" by (simp add: fresh_unet_def)
  have dv: "(2::nat) ^ 4 dvd 256" by simp
  have bn: "\<not> (True \<and> 1 * (256 div 2 ^ 4) * (256 div 2 ^ 4) = (1::nat))" by simp
  have e: "doubling 64 4 = [64, 128, 256, 512]"
    using default_features_doubling by (simp add: default_features_def)
  from forward_shape_divisible [OF _ _ _ _ _ _ _ dv dv bn i, unfolded t] i e dv
  show ?thesis by auto
qed

end
